theory Spec2Isabelle
  imports Complex_Main "HOL-Library.Char_ord" "HOL-Library.List_Lexorder"
begin

section \<open>Python values, exceptions and the analyzer object\<close>

text \<open>
  The program is one class, \<^verbatim>\<open>ShortPositionAnalyzer\<close> (src/ShortPositionUpdater.py).
  Its methods are embedded as functions that take the object's state and return an
  exception (\<open>Inl\<close>) or a value together with the new state (\<open>Inr\<close>).
\<close>

datatype datetime =
  Datetime (year: int) (month: int) (day: int) (hour: int) (minute: int) (second: int)

text \<open>Python values as the program meets them: parsed YAML and JSON, the parsed
  publication date, and opaque library objects (the Qdrant client, the encoder, the
  distance constant).\<close>

datatype pyval =
    PyNone
  | PyBool bool
  | PyInt int
  | PyFloat real
  | PyStr string
  | PyList "pyval list"
  | PyDict "(string \<times> pyval) list"
  | PyDatetime datetime
  | PyObject string

datatype error =
    RequestException string
  | HTTPError string
  | ValueError string
  | TypeError string
  | KeyError string
  | IndexError
  | AttributeError string
  | UnboundLocalError string
  | JSONDecodeError
  | OSError string

text \<open>\<^verbatim>\<open>except requests.exceptions.RequestException\<close> catches that class and its
  subclasses; \<^verbatim>\<open>HTTPError\<close>, raised by \<^verbatim>\<open>raise_for_status\<close>, is one.\<close>

fun is_RequestException :: "error \<Rightarrow> bool" where
  "is_RequestException (RequestException _) = True"
| "is_RequestException (HTTPError _) = True"
| "is_RequestException _ = False"

section \<open>Position tables\<close>

text \<open>A row of the current or historical sheet, with the five columns the program reads.
  A cell that is blank in the spreadsheet is NaN/NaT in the DataFrame: \<open>None\<close> here.\<close>

record position =
  ISIN :: "string option"
  Position_Holder :: "string option"
  Net_Short_Position :: "real option"
  Position_Date :: "datetime option"
  Share_Issuer :: "string option"

type_synonym table = "position list"

text \<open>\<^verbatim>\<open>df[col] == d\<close> builds a boolean mask, one entry per row (a missing date
  compares unequal); \<^verbatim>\<open>df[mask]\<close> keeps the rows whose entry is true.\<close>

definition eq_mask :: "datetime option list \<Rightarrow> datetime \<Rightarrow> bool list" where
  "eq_mask col d = map (\<lambda>c. c = Some d) col"

definition select_rows :: "'a list \<Rightarrow> bool list \<Rightarrow> 'a list" where
  "select_rows rows msk = map fst (filter snd (zip rows msk))"

definition filter_by_date :: "table \<Rightarrow> datetime \<Rightarrow> table" where
  "filter_by_date df d = select_rows df (eq_mask (map Position_Date df) d)"

text \<open>One row of \<^verbatim>\<open>groupby('ISIN').agg({...}).reset_index()\<close>.\<close>

record asset_aggregate =
  agg_ISIN :: string
  agg_Position_Holder :: "string option list"
  agg_Net_Short_Position :: "real option list"
  agg_Share_Issuer :: "string option"

text \<open>\<^verbatim>\<open>groupby\<close> drops the rows whose key is missing (\<^verbatim>\<open>dropna=True\<close>) and orders
  the groups by key (\<^verbatim>\<open>sort=True\<close>).\<close>

definition group_keys :: "table \<Rightarrow> string list" where
  "group_keys df = sort (remdups (List.map_filter ISIN df))"

definition group_rows :: "table \<Rightarrow> string \<Rightarrow> table" where
  "group_rows df k = filter (\<lambda>r. ISIN r = Some k) df"

text \<open>The aggregation \<^verbatim>\<open>'first'\<close> is the first entry of the group that is not missing;
  \<^verbatim>\<open>list\<close> keeps every entry of the group, missing or not, in row order.\<close>

fun agg_first :: "'a option list \<Rightarrow> 'a option" where
  "agg_first [] = None"
| "agg_first (None # xs) = agg_first xs"
| "agg_first (Some x # xs) = Some x"

definition aggregate_group :: "table \<Rightarrow> string \<Rightarrow> asset_aggregate" where
  "aggregate_group df k =
     (let g = group_rows df k in
      \<lparr> agg_ISIN = k,
        agg_Position_Holder = map Position_Holder g,
        agg_Net_Short_Position = map Net_Short_Position g,
        agg_Share_Issuer = agg_first (map Share_Issuer g) \<rparr>)"

definition groupby_ISIN_agg :: "table \<Rightarrow> asset_aggregate list" where
  "groupby_ISIN_agg df = map (aggregate_group df) (group_keys df)"

section \<open>The object state\<close>

text \<open>A point of the vector store; the payload is the dict the program passes.\<close>

record 'v point =
  point_id :: string
  point_vector :: 'v
  point_payload :: "(string \<times> pyval) list"

datatype effect =
    Printed string
  | PrintedTable string table
  | PrintedAggregate string "asset_aggregate list"
  | FileOpened string
  | FileWrite string string
  | HttpPost pyval string

text \<open>\<open>attrs\<close> is the instance dictionary of \<^verbatim>\<open>self\<close>; \<open>collections\<close> is the
  in-memory Qdrant store behind \<^verbatim>\<open>self.qdrant\<close>; \<open>effects\<close> lists, oldest first, what
  the program printed, wrote and posted; \<open>uuid_calls\<close> counts the identifiers drawn.
  The client and the encoder are created by \<^verbatim>\<open>__init__\<close> and never assigned again: the
  methods reach the store as this field and the encoder as a parameter. The class has
  methods only, no class attribute and no \<^verbatim>\<open>__getattr__\<close>, so reading a name that is not
  in the instance dictionary raises \<^verbatim>\<open>AttributeError\<close>.
  The attribute \<^verbatim>\<open>pubblication_date\<close> is kept apart from the dictionary, with its type:
  line 62 is the only assignment to it, and what it assigns is the datetime that
  \<^verbatim>\<open>strptime\<close> returned; \<open>None\<close> is the attribute not assigned yet.\<close>

record 'v analyzer =
  attrs :: "string \<rightharpoonup> pyval"
  pubblication_date :: "datetime option"
  collections :: "string \<rightharpoonup> 'v point list"
  effects :: "effect list"
  uuid_calls :: nat

definition getattr :: "'v analyzer \<Rightarrow> string \<Rightarrow> error + pyval" where
  "getattr s name = (case attrs s name of None \<Rightarrow> Inl (AttributeError name) | Some v \<Rightarrow> Inr v)"

definition dict_get :: "(string \<rightharpoonup> pyval) \<Rightarrow> string \<Rightarrow> pyval" where
  "dict_get d k = (case d k of None \<Rightarrow> PyNone | Some v \<Rightarrow> v)"

text \<open>\<^verbatim>\<open>__init__\<close>, from the two parsed YAML documents.\<close>

definition init :: "(string \<rightharpoonup> pyval) \<Rightarrow> (string \<rightharpoonup> pyval) \<Rightarrow> 'v analyzer" where
  "init config secrets =
     \<lparr> attrs = [''url'' \<mapsto> dict_get config ''url'',
                ''destfile'' \<mapsto> dict_get config ''destfile'',
                ''news_endpoint'' \<mapsto> dict_get config ''news_endpoint'',
                ''news_api_key'' \<mapsto> dict_get secrets ''news_api_key'',
                ''hugging_face_token'' \<mapsto> dict_get secrets ''hugging_face_user_token'',
                ''qdrant'' \<mapsto> PyObject ''QdrantClient'',
                ''COLLECTION_NAME'' \<mapsto> PyStr ''Press news'',
                ''DISTANCE'' \<mapsto> PyObject ''Distance.COSINE'',
                ''encoder'' \<mapsto> PyObject ''SentenceTransformer''],
       pubblication_date = None,
       collections = Map.empty,
       effects = [],
       uuid_calls = 0 \<rparr>"

section \<open>analyze_positions\<close>

text \<open>Every method returns its outcome, an exception (\<open>Inl\<close>) or a value (\<open>Inr\<close>),
  together with the state it leaves behind, so that what a failing call has already
  done stays visible.\<close>

text \<open>Lines 79 to 83. The publication date is read from \<^verbatim>\<open>self.pubblication_date\<close>,
  which \<^verbatim>\<open>download_file\<close> assigns: before that the read raises
  \<^verbatim>\<open>AttributeError\<close>.\<close>

definition analyze_positions ::
  "'v analyzer \<Rightarrow> table \<Rightarrow> table \<Rightarrow> (error + (table \<times> table \<times> asset_aggregate list)) \<times> 'v analyzer" where
  "analyze_positions s cur hist =
     (case pubblication_date s of
        None \<Rightarrow> (Inl (AttributeError ''pubblication_date''), s)
      | Some d \<Rightarrow>
          (let new_positions = filter_by_date cur d;
               closed_positions = filter_by_date hist d;
               short_positions_by_asset = groupby_ISIN_agg cur
           in (Inr (new_positions, closed_positions, short_positions_by_asset), s)))"

section \<open>The world outside the program\<close>

text \<open>An HTTP response: reading the body of a streamed response and decoding it as JSON
  can each raise.\<close>

record response =
  status_code :: int
  http_error_msg :: string
  content :: "error + string"
  json_body :: "error + pyval"

text \<open>What the libraries and the network answer is a parameter of every method: the
  HTTP client, the spreadsheet reader for the two position sheets (\<^verbatim>\<open>skiprows=1\<close>) and
  for column A of the date sheet, \<^verbatim>\<open>datetime.strptime\<close> with the format
  \<^verbatim>\<open>%d/%m/%Y\<close>, today's date as \<^verbatim>\<open>%d-%m-%y\<close>, opening a file for writing,
  \<^verbatim>\<open>str.format\<close> with one argument, \<^verbatim>\<open>str()\<close>, the sentence encoder, the cosine
  score and \<^verbatim>\<open>uuid4\<close>.\<close>

record 'v env =
  requests_get :: "pyval \<Rightarrow> error + response"
  requests_post :: "pyval \<Rightarrow> string \<Rightarrow> error + response"
  read_excel_positions :: "string \<Rightarrow> string \<Rightarrow> error + table"
  read_excel_column_A :: "string \<Rightarrow> string \<Rightarrow> error + pyval list"
  strptime :: "string \<Rightarrow> error + datetime"
  strftime_now :: string
  open_wb :: "string \<Rightarrow> error option"
  str_format :: "string \<Rightarrow> string \<Rightarrow> error + string"
  py_str :: "pyval \<Rightarrow> string"
  encode :: "pyval \<Rightarrow> error + 'v"
  cosine :: "'v \<Rightarrow> 'v \<Rightarrow> real"
  uuid4 :: "nat \<Rightarrow> string"

section \<open>download_file\<close>

text \<open>\<^verbatim>\<open>raise_for_status\<close> raises for the 4xx and 5xx codes.\<close>

definition raise_for_status :: "response \<Rightarrow> error + unit" where
  "raise_for_status r =
     (if 400 \<le> status_code r \<and> status_code r < 600 then Inl (HTTPError (http_error_msg r))
      else Inr ())"

text \<open>\<^verbatim>\<open>.iloc[1]\<close>: the second row, \<^verbatim>\<open>IndexError\<close> when there is none.\<close>

definition iloc :: "'a list \<Rightarrow> nat \<Rightarrow> error + 'a" where
  "iloc xs i = (if i < length xs then Inr (xs ! i) else Inl IndexError)"

definition call_strptime :: "'v env \<Rightarrow> pyval \<Rightarrow> error + datetime" where
  "call_strptime env v =
     (case v of PyStr t \<Rightarrow> strptime env t
              | _ \<Rightarrow> Inl (TypeError ''strptime() argument 1 must be str''))"

definition path_join :: "pyval \<Rightarrow> string \<Rightarrow> error + string" where
  "path_join d f =
     (case d of
        PyStr p \<Rightarrow> Inr (if p = [] then f else if last p = CHR ''/'' then p @ f else p @ ''/'' @ f)
      | _ \<Rightarrow> Inl (TypeError ''expected str, bytes or os.PathLike object''))"

text \<open>\<^verbatim>\<open>iter_content(chunk_size)\<close> on a body that has been read: slices of the
  cached bytes.\<close>

function iter_content :: "nat \<Rightarrow> string \<Rightarrow> string list" where
  "iter_content n bs =
     (if bs = [] then []
      else let k = (if n = 0 then length bs else n)
           in take k bs # iter_content n (drop k bs))"
  by pat_completeness auto
termination
  by (relation "measure (\<lambda>(n, bs). length bs)") (auto simp: Let_def)

definition exception_str :: "error \<Rightarrow> string" where
  "exception_str e = (case e of RequestException m \<Rightarrow> m | HTTPError m \<Rightarrow> m | _ \<Rightarrow> [])"

text \<open>The two local variables of \<^verbatim>\<open>download_file\<close>; \<open>None\<close> is a name that has not
  been assigned.\<close>

record locals =
  current :: "table option"
  historical :: "table option"

text \<open>Lines 54 to 56: the request, the status check and the body of the response
  (\<^verbatim>\<open>response.content\<close>, read for the first sheet and cached from then on).\<close>

definition fetch :: "'v env \<Rightarrow> 'v analyzer \<Rightarrow> error + string" where
  "fetch env s =
     (case getattr s ''url'' of
        Inl e \<Rightarrow> Inl e
      | Inr u \<Rightarrow>
          (case requests_get env u of
             Inl e \<Rightarrow> Inl e
           | Inr resp \<Rightarrow>
               (case raise_for_status resp of
                  Inl e \<Rightarrow> Inl e
                | Inr _ \<Rightarrow> content resp)))"

text \<open>Lines 60 to 62: the cell in the second row of column A of the date sheet, parsed
  with \<^verbatim>\<open>strptime\<close>.\<close>

definition parse_date :: "'v env \<Rightarrow> string \<Rightarrow> error + datetime" where
  "parse_date env body =
     (case read_excel_column_A env body '' Pubb. Data - Pubb. Date '' of
        Inl e \<Rightarrow> Inl e
      | Inr col \<Rightarrow>
          (case iloc col 1 of
             Inl e \<Rightarrow> Inl e
           | Inr date_str \<Rightarrow> call_strptime env date_str))"

text \<open>Lines 63 to 66: the file is opened, the chunks are written, the message is
  printed.\<close>

definition save_file :: "'v env \<Rightarrow> 'v analyzer \<Rightarrow> string \<Rightarrow> error option \<times> 'v analyzer" where
  "save_file env s body =
     (case getattr s ''destfile'' of
        Inl e \<Rightarrow> (Some e, s)
      | Inr dest \<Rightarrow>
          (case path_join dest (''pnc_consob_'' @ strftime_now env @ ''.xlsx'') of
             Inl e \<Rightarrow> (Some e, s)
           | Inr path \<Rightarrow>
               (case open_wb env path of
                  Some e \<Rightarrow> (Some e, s)
                | None \<Rightarrow>
                    (None, s\<lparr>effects := effects s @ FileOpened path #
                              map (FileWrite path) (iter_content 8192 body) @
                              [Printed (''File downloaded successfully and saved to '' @
                                        py_str env dest)]\<rparr>))))"

text \<open>Lines 54 to 66, the body of the \<^verbatim>\<open>try\<close>: the exception that left it, if any,
  the local variables and the state at that point.\<close>

definition download_try :: "'v env \<Rightarrow> 'v analyzer \<Rightarrow> error option \<times> locals \<times> 'v analyzer" where
  "download_try env s =
     (case fetch env s of
        Inl e \<Rightarrow> (Some e, \<lparr>current = None, historical = None\<rparr>, s)
      | Inr body \<Rightarrow>
          (case read_excel_positions env body '' Correnti - Current '' of
             Inl e \<Rightarrow> (Some e, \<lparr>current = None, historical = None\<rparr>, s)
           | Inr cur \<Rightarrow>
               (case read_excel_positions env body '' Storiche - Historic '' of
                  Inl e \<Rightarrow> (Some e, \<lparr>current = Some cur, historical = None\<rparr>, s)
                | Inr hist \<Rightarrow>
                    (case parse_date env body of
                       Inl e \<Rightarrow> (Some e, \<lparr>current = Some cur, historical = Some hist\<rparr>, s)
                     | Inr d \<Rightarrow>
                         (case save_file env (s\<lparr>pubblication_date := Some d\<rparr>) body of
                            (exc, s') \<Rightarrow>
                              (exc, \<lparr>current = Some cur, historical = Some hist\<rparr>, s'))))))"

text \<open>Lines 67 and 68: the handler takes a \<^verbatim>\<open>RequestException\<close> and prints it; any
  other exception leaves the method.\<close>

definition download_except ::
  "error option \<times> locals \<times> 'v analyzer \<Rightarrow> error option \<times> locals \<times> 'v analyzer" where
  "download_except r =
     (case r of
        (Some e, l, s) \<Rightarrow>
          if is_RequestException e
          then (None, l, s\<lparr>effects := effects s @ [Printed (''An error occurred: '' @ exception_str e)]\<rparr>)
          else (Some e, l, s)
      | (None, l, s) \<Rightarrow> (None, l, s))"

text \<open>Line 69, \<^verbatim>\<open>return current, historical\<close>: reading a local name that was never
  assigned raises \<^verbatim>\<open>UnboundLocalError\<close>.\<close>

definition download_return :: "locals \<Rightarrow> error + (table \<times> table)" where
  "download_return l =
     (case current l of
        None \<Rightarrow> Inl (UnboundLocalError ''current'')
      | Some c \<Rightarrow>
          (case historical l of
             None \<Rightarrow> Inl (UnboundLocalError ''historical'')
           | Some h \<Rightarrow> Inr (c, h)))"

definition download_file :: "'v env \<Rightarrow> 'v analyzer \<Rightarrow> (error + (table \<times> table)) \<times> 'v analyzer" where
  "download_file env s =
     (case download_except (download_try env s) of
        (Some e, l, s') \<Rightarrow> (Inl e, s')
      | (None, l, s') \<Rightarrow> (download_return l, s'))"

text \<open>The files the program has opened for writing, and whether the return statement of
  \<^verbatim>\<open>download_file\<close> is reached (no exception is leaving the method).\<close>

definition files_written :: "'v analyzer \<Rightarrow> string list" where
  "files_written s = concat (map (\<lambda>e. case e of FileOpened p \<Rightarrow> [p] | FileWrite p _ \<Rightarrow> [p] | _ \<Rightarrow> []) (effects s))"

definition reaches_return :: "'v env \<Rightarrow> 'v analyzer \<Rightarrow> bool" where
  "reaches_return env s = (fst (download_except (download_try env s)) = None)"

section \<open>retrieve_news\<close>

text \<open>\<^verbatim>\<open>self.news_endpoint.format(company_name)\<close>: a value that is not a string
  (\<^verbatim>\<open>None\<close> when the key is absent from the configuration) has no \<^verbatim>\<open>format\<close>.\<close>

definition call_format :: "'v env \<Rightarrow> pyval \<Rightarrow> string \<Rightarrow> error + string" where
  "call_format env t arg =
     (case t of PyStr template \<Rightarrow> str_format env template arg
              | _ \<Rightarrow> Inl (AttributeError ''format''))"

text \<open>\<^verbatim>\<open>response.json().get('feed', [])\<close>: only a dict has \<^verbatim>\<open>get\<close>. A parsed dict
  is a list of bindings with distinct keys.\<close>

definition get_feed :: "pyval \<Rightarrow> error + pyval" where
  "get_feed j =
     (case j of
        PyDict kvs \<Rightarrow> Inr (case map_of kvs ''feed'' of None \<Rightarrow> PyList [] | Some v \<Rightarrow> v)
      | _ \<Rightarrow> Inl (AttributeError ''get''))"

text \<open>\<^verbatim>\<open>for item in feed\<close>: the elements of a list, the keys of a dict, the
  characters of a string; nothing else can be iterated.\<close>

definition py_iter :: "pyval \<Rightarrow> error + pyval list" where
  "py_iter v =
     (case v of
        PyList xs \<Rightarrow> Inr xs
      | PyDict kvs \<Rightarrow> Inr (map (\<lambda>kv. PyStr (fst kv)) kvs)
      | PyStr cs \<Rightarrow> Inr (map (\<lambda>c. PyStr [c]) cs)
      | _ \<Rightarrow> Inl (TypeError ''object is not iterable''))"

text \<open>\<^verbatim>\<open>item['title']\<close>: a dict without the key raises \<^verbatim>\<open>KeyError\<close>; a value that
  is not a dict cannot be indexed by a string.\<close>

definition subscript :: "pyval \<Rightarrow> string \<Rightarrow> error + pyval" where
  "subscript v k =
     (case v of
        PyDict kvs \<Rightarrow> (case map_of kvs k of None \<Rightarrow> Inl (KeyError k) | Some x \<Rightarrow> Inr x)
      | _ \<Rightarrow> Inl (TypeError ''indices must be integers or object is not subscriptable''))"

text \<open>Line 96, the list comprehension: the title, then the url, of each item in turn; the
  first lookup that fails ends it.\<close>

fun feed_articles :: "pyval list \<Rightarrow> error + (pyval \<times> pyval) list" where
  "feed_articles [] = Inr []"
| "feed_articles (item # items) =
     (case subscript item ''title'' of
        Inl e \<Rightarrow> Inl e
      | Inr title \<Rightarrow>
          (case subscript item ''url'' of
             Inl e \<Rightarrow> Inl e
           | Inr url \<Rightarrow>
               (case feed_articles items of
                  Inl e \<Rightarrow> Inl e
                | Inr rest \<Rightarrow> Inr ((title, url) # rest))))"

text \<open>Lines 93 to 97, from the response on.\<close>

definition news_of_response :: "response \<Rightarrow> error + (pyval \<times> pyval) list" where
  "news_of_response resp =
     (if status_code resp = 200
      then (case json_body resp of
              Inl e \<Rightarrow> Inl e
            | Inr j \<Rightarrow>
                (case get_feed j of
                   Inl e \<Rightarrow> Inl e
                 | Inr feed \<Rightarrow>
                     (case py_iter feed of
                        Inl e \<Rightarrow> Inl e
                      | Inr items \<Rightarrow> feed_articles items)))
      else Inr [])"

definition retrieve_news ::
  "'v env \<Rightarrow> 'v analyzer \<Rightarrow> string \<Rightarrow> (error + (pyval \<times> pyval) list) \<times> 'v analyzer" where
  "retrieve_news env s company_name =
     (case getattr s ''news_endpoint'' of
        Inl e \<Rightarrow> (Inl e, s)
      | Inr endpoint \<Rightarrow>
          (case call_format env endpoint company_name of
             Inl e \<Rightarrow> (Inl e, s)
           | Inr u \<Rightarrow>
               (case requests_get env (PyStr u) of
                  Inl e \<Rightarrow> (Inl e, s)
                | Inr resp \<Rightarrow> (news_of_response resp, s))))"

section \<open>The vector store\<close>

text \<open>The in-memory Qdrant client: a collection is the list of its points. Creating a
  collection that exists, and writing to or searching one that does not, raise.\<close>

definition attr_str :: "'v analyzer \<Rightarrow> string \<Rightarrow> error + string" where
  "attr_str s name =
     (case getattr s name of
        Inl e \<Rightarrow> Inl e
      | Inr v \<Rightarrow> (case v of PyStr n \<Rightarrow> Inr n | _ \<Rightarrow> Inl (TypeError name)))"

definition collection_exists :: "'v analyzer \<Rightarrow> string \<Rightarrow> bool" where
  "collection_exists s name = (collections s name \<noteq> None)"

definition create_collection :: "'v analyzer \<Rightarrow> string \<Rightarrow> (error + unit) \<times> 'v analyzer" where
  "create_collection s name =
     (if collection_exists s name then (Inl (ValueError ''Collection already exists''), s)
      else (Inr (), s\<lparr>collections := (collections s)(name \<mapsto> [])\<rparr>))"

text \<open>\<^verbatim>\<open>upsert\<close>: a point whose identifier is stored already replaces that point;
  otherwise it is added.\<close>

fun upsert_point :: "'v point \<Rightarrow> 'v point list \<Rightarrow> 'v point list" where
  "upsert_point p [] = [p]"
| "upsert_point p (q # qs) =
     (if point_id q = point_id p then p # qs else q # upsert_point p qs)"

definition upsert :: "'v analyzer \<Rightarrow> string \<Rightarrow> 'v point \<Rightarrow> (error + unit) \<times> 'v analyzer" where
  "upsert s name p =
     (case collections s name of
        None \<Rightarrow> (Inl (ValueError ''Collection not found''), s)
      | Some pts \<Rightarrow> (Inr (), s\<lparr>collections := (collections s)(name \<mapsto> upsert_point p pts)\<rparr>))"

text \<open>\<^verbatim>\<open>search\<close>: the local store sorts the scores in increasing order, keeping the
  stored order among equal scores, and reads the result backwards: the points come in
  decreasing order of their score against the query vector, the newest first among equal
  scores, cut at \<open>limit\<close>.\<close>

definition search :: "'v env \<Rightarrow> 'v analyzer \<Rightarrow> string \<Rightarrow> 'v \<Rightarrow> nat \<Rightarrow> error + 'v point list" where
  "search env s name query_vector limit =
     (case collections s name of
        None \<Rightarrow> Inl (ValueError ''Collection not found'')
      | Some pts \<Rightarrow>
          Inr (take limit (rev (sort_key (\<lambda>p. cosine env query_vector (point_vector p)) pts))))"

section \<open>embed_and_store_news\<close>

text \<open>Lines 105 to 110.\<close>

definition ensure_collection :: "'v analyzer \<Rightarrow> (error + unit) \<times> 'v analyzer" where
  "ensure_collection s =
     (case attr_str s ''COLLECTION_NAME'' of
        Inl e \<Rightarrow> (Inl e, s)
      | Inr name \<Rightarrow>
          (if \<not> collection_exists s name then create_collection s name else (Inr (), s)))"

text \<open>Lines 113 to 122, one turn of the loop.\<close>

definition store_article ::
  "'v env \<Rightarrow> 'v analyzer \<Rightarrow> pyval \<times> pyval \<Rightarrow> (error + unit) \<times> 'v analyzer" where
  "store_article env s article =
     (case encode env (fst article) of
        Inl e \<Rightarrow> (Inl e, s)
      | Inr embedding \<Rightarrow>
          (let unique_id = uuid4 env (uuid_calls s);
               s1 = s\<lparr>uuid_calls := Suc (uuid_calls s)\<rparr>
           in case attr_str s1 ''COLLECTION_NAME'' of
                Inl e \<Rightarrow> (Inl e, s1)
              | Inr name \<Rightarrow>
                  upsert s1 name
                    \<lparr> point_id = unique_id, point_vector = embedding,
                      point_payload = [(''title'', fst article), (''url'', snd article)] \<rparr>))"

fun store_articles ::
  "'v env \<Rightarrow> 'v analyzer \<Rightarrow> (pyval \<times> pyval) list \<Rightarrow> (error + unit) \<times> 'v analyzer" where
  "store_articles env s [] = (Inr (), s)"
| "store_articles env s (a # rest) =
     (case store_article env s a of
        (Inl e, s') \<Rightarrow> (Inl e, s')
      | (Inr _, s') \<Rightarrow> store_articles env s' rest)"

definition embed_and_store_news ::
  "'v env \<Rightarrow> 'v analyzer \<Rightarrow> (pyval \<times> pyval) list \<Rightarrow> (error + unit) \<times> 'v analyzer" where
  "embed_and_store_news env s articles =
     (case ensure_collection s of
        (Inl e, s') \<Rightarrow> (Inl e, s')
      | (Inr _, s') \<Rightarrow> store_articles env s' articles)"

section \<open>retrieve_news_with_rag\<close>

text \<open>Lines 134 to 140.\<close>

definition search_news :: "'v env \<Rightarrow> 'v analyzer \<Rightarrow> string \<Rightarrow> error + 'v point list" where
  "search_news env s query =
     (case encode env (PyStr query) of
        Inl e \<Rightarrow> Inl e
      | Inr query_embedding \<Rightarrow>
          (case attr_str s ''COLLECTION_NAME'' of
             Inl e \<Rightarrow> Inl e
           | Inr name \<Rightarrow> search env s name query_embedding 5))"

text \<open>Lines 142 to 144: one line per result, joined by newlines.\<close>

fun summaries :: "'v env \<Rightarrow> 'v point list \<Rightarrow> error + string list" where
  "summaries env [] = Inr []"
| "summaries env (res # rest) =
     (case subscript (PyDict (point_payload res)) ''title'' of
        Inl e \<Rightarrow> Inl e
      | Inr t \<Rightarrow>
          (case summaries env rest of
             Inl e \<Rightarrow> Inl e
           | Inr ls \<Rightarrow> Inr ((''Title: '' @ py_str env t) # ls)))"

fun join_lines :: "string list \<Rightarrow> string" where
  "join_lines [] = []"
| "join_lines [l] = l"
| "join_lines (l # ls) = l @ [CHR 0x0A] @ join_lines ls"

definition make_prompt :: "string \<Rightarrow> string \<Rightarrow> string" where
  "make_prompt company_name article_summaries =
     ''Based on the following news articles, provide an explanation on why there might be short positions in ''
       @ company_name @ '':'' @ [CHR 0x0A, CHR 0x0A] @ article_summaries @ [CHR 0x0A, CHR 0x0A]"

text \<open>Lines 131 to 149: everything before the inference call.\<close>

definition rag_prompt ::
  "'v env \<Rightarrow> 'v analyzer \<Rightarrow> string \<Rightarrow> (error + string) \<times> 'v analyzer" where
  "rag_prompt env s company_name =
     (case retrieve_news env s company_name of
        (Inl e, s1) \<Rightarrow> (Inl e, s1)
      | (Inr articles, s1) \<Rightarrow>
          (case embed_and_store_news env s1 articles of
             (Inl e, s2) \<Rightarrow> (Inl e, s2)
           | (Inr _, s2) \<Rightarrow>
               (case search_news env s2 ''Short selling'' of
                  Inl e \<Rightarrow> (Inl e, s2)
                | Inr results \<Rightarrow>
                    (case summaries env results of
                       Inl e \<Rightarrow> (Inl e, s2)
                     | Inr ls \<Rightarrow> (Inr (make_prompt company_name (join_lines ls)), s2)))))"

text \<open>Lines 151 to 154: the token is read for the header, then the endpoint attribute
  for the first argument of \<^verbatim>\<open>requests.post\<close>; the request goes out once both are
  there.\<close>

definition rag_inference ::
  "'v env \<Rightarrow> 'v analyzer \<Rightarrow> string \<Rightarrow> (error + response) \<times> 'v analyzer" where
  "rag_inference env s prompt =
     (case getattr s ''hugging_face_token'' of
        Inl e \<Rightarrow> (Inl e, s)
      | Inr token \<Rightarrow>
          (case getattr s ''llm_inference_endpoint'' of
             Inl e \<Rightarrow> (Inl e, s)
           | Inr endpoint \<Rightarrow>
               (requests_post env endpoint prompt,
                s\<lparr>effects := effects s @ [HttpPost endpoint prompt]\<rparr>)))"

definition retrieve_news_with_rag ::
  "'v env \<Rightarrow> 'v analyzer \<Rightarrow> string \<Rightarrow> (error + response) \<times> 'v analyzer" where
  "retrieve_news_with_rag env s company_name =
     (case rag_prompt env s company_name of
        (Inl e, s') \<Rightarrow> (Inl e, s')
      | (Inr prompt, s') \<Rightarrow> rag_inference env s' prompt)"

text \<open>The requests the program has posted.\<close>

definition posts :: "'v analyzer \<Rightarrow> (pyval \<times> string) list" where
  "posts s = concat (map (\<lambda>e. case e of HttpPost u b \<Rightarrow> [(u, b)] | _ \<Rightarrow> []) (effects s))"

section \<open>display_results and execute\<close>

text \<open>Lines 164 to 166: three labelled tables are printed.\<close>

definition display_results ::
  "'v analyzer \<Rightarrow> table \<Rightarrow> table \<Rightarrow> asset_aggregate list \<Rightarrow> (error + unit) \<times> 'v analyzer" where
  "display_results s new_positions closed_positions short_positions_by_asset =
     (Inr (),
      s\<lparr>effects := effects s @
           [PrintedTable ''New Short Positions:'' new_positions,
            PrintedTable ''Closed Short Positions:'' closed_positions,
            PrintedAggregate ''Short Positions by Asset:'' short_positions_by_asset]\<rparr>)"

text \<open>Lines 172 to 177: the first exception ends the run.\<close>

definition execute :: "'v env \<Rightarrow> 'v analyzer \<Rightarrow> (error + unit) \<times> 'v analyzer" where
  "execute env s =
     (case download_file env s of
        (Inl e, s1) \<Rightarrow> (Inl e, s1)
      | (Inr tables, s1) \<Rightarrow>
          (case analyze_positions s1 (fst tables) (snd tables) of
             (Inl e, s2) \<Rightarrow> (Inl e, s2)
           | (Inr r, s2) \<Rightarrow>
               (case retrieve_news_with_rag env s2 ''AAPL'' of
                  (Inl e, s3) \<Rightarrow> (Inl e, s3)
                | (Inr explanation, s3) \<Rightarrow>
                    display_results s3 (fst r) (fst (snd r)) (snd (snd r)))))"

section \<open>Reachable states\<close>

text \<open>The states the object can be in: the one \<^verbatim>\<open>__init__\<close> builds, and those any
  method leaves behind, whatever the world answers.\<close>

inductive reachable :: "'v analyzer \<Rightarrow> bool" where
  r_init: "reachable (init config secrets)"
| r_download: "reachable s \<Longrightarrow> reachable (snd (download_file env s))"
| r_analyze: "reachable s \<Longrightarrow> reachable (snd (analyze_positions s cur hist))"
| r_news: "reachable s \<Longrightarrow> reachable (snd (retrieve_news env s company_name))"
| r_embed: "reachable s \<Longrightarrow> reachable (snd (embed_and_store_news env s articles))"
| r_rag: "reachable s \<Longrightarrow> reachable (snd (retrieve_news_with_rag env s company_name))"
| r_display: "reachable s \<Longrightarrow> reachable (snd (display_results s new_rows closed_rows agg))"

section \<open>A concrete run\<close>

text \<open>A configuration, a spreadsheet and a news feed on which the methods are evaluated:
  three rows of the current sheet and one of the historical sheet carry the publication
  date 10 January 2024.\<close>

definition pub_date :: datetime where
  "pub_date = Datetime 2024 1 10 0 0 0"

definition demo_current :: table where
  "demo_current =
     [\<lparr>ISIN = Some ''IT0001'', Position_Holder = Some ''Fund A'', Net_Short_Position = Some (6/10),
        Position_Date = Some pub_date, Share_Issuer = Some ''Alpha''\<rparr>,
      \<lparr>ISIN = Some ''IT0002'', Position_Holder = Some ''Fund B'', Net_Short_Position = Some (12/10),
        Position_Date = Some pub_date, Share_Issuer = Some ''Beta''\<rparr>,
      \<lparr>ISIN = Some ''IT0001'', Position_Holder = Some ''Fund A'', Net_Short_Position = Some (5/10),
        Position_Date = Some (Datetime 2024 1 9 0 0 0), Share_Issuer = Some ''Alpha SpA''\<rparr>,
      \<lparr>ISIN = Some ''IT0001'', Position_Holder = Some ''Fund C'', Net_Short_Position = Some (7/10),
        Position_Date = Some pub_date, Share_Issuer = Some ''Alpha''\<rparr>]"

definition demo_historical :: table where
  "demo_historical =
     [\<lparr>ISIN = Some ''IT0003'', Position_Holder = Some ''Fund D'', Net_Short_Position = Some (4/10),
        Position_Date = Some pub_date, Share_Issuer = Some ''Gamma''\<rparr>,
      \<lparr>ISIN = Some ''IT0001'', Position_Holder = Some ''Fund A'', Net_Short_Position = Some (5/10),
        Position_Date = Some (Datetime 2024 1 10 12 0 0), Share_Issuer = Some ''Alpha''\<rparr>]"

definition demo_config :: "string \<rightharpoonup> pyval" where
  "demo_config = [''url'' \<mapsto> PyStr ''https://consob.example/pnc.xlsx'',
                  ''destfile'' \<mapsto> PyStr ''/data'',
                  ''news_endpoint'' \<mapsto> PyStr ''https://news.example/q={}'']"

definition demo_secrets :: "string \<rightharpoonup> pyval" where
  "demo_secrets = [''news_api_key'' \<mapsto> PyStr ''k'', ''hugging_face_user_token'' \<mapsto> PyStr ''t'']"

definition demo_analyzer :: "int analyzer" where
  "demo_analyzer = init demo_config demo_secrets"

definition xlsx_response :: response where
  "xlsx_response = \<lparr>status_code = 200, http_error_msg = [], content = Inr ''PK'',
                     json_body = Inl JSONDecodeError\<rparr>"

definition not_found_response :: response where
  "not_found_response = \<lparr>status_code = 404, http_error_msg = ''404 Client Error: Not Found'',
                          content = Inr [], json_body = Inl JSONDecodeError\<rparr>"

definition demo_feed :: "pyval list" where
  "demo_feed =
     [PyDict [(''title'', PyStr ''Alpha shorted''), (''url'', PyStr ''https://n/1'')],
      PyDict [(''title'', PyStr ''Alpha shorted''), (''url'', PyStr ''https://n/2''),
              (''summary'', PyStr ''x'')]]"

definition feed_response :: response where
  "feed_response = \<lparr>status_code = 200, http_error_msg = [], content = Inr [],
                     json_body = Inr (PyDict [(''feed'', PyList demo_feed)])\<rparr>"

definition demo_env :: "int env" where
  "demo_env =
     \<lparr> requests_get = (\<lambda>u. if u = PyStr ''https://consob.example/pnc.xlsx'' then Inr xlsx_response
                          else if u = PyStr ''https://news.example/q=AAPL'' then Inr feed_response
                          else Inl (RequestException ''connection refused'')),
       requests_post = (\<lambda>u body. Inl (RequestException ''connection refused'')),
       read_excel_positions = (\<lambda>body sheet.
          if sheet = '' Correnti - Current '' then Inr demo_current
          else if sheet = '' Storiche - Historic '' then Inr demo_historical
          else Inl (ValueError ''Worksheet not found'')),
       read_excel_column_A = (\<lambda>body sheet.
          if sheet = '' Pubb. Data - Pubb. Date '' then Inr [PyNone, PyStr ''10/01/2024'']
          else Inl (ValueError ''Worksheet not found'')),
       strptime = (\<lambda>t. if t = ''10/01/2024'' then Inr pub_date
                       else Inl (ValueError ''time data does not match format'')),
       strftime_now = ''03-11-26'',
       open_wb = (\<lambda>path. None),
       str_format = (\<lambda>t a. if t = ''https://news.example/q={}''
                            then Inr (''https://news.example/q='' @ a)
                            else Inl (ValueError ''format'')),
       py_str = (\<lambda>v. case v of PyStr t \<Rightarrow> t | _ \<Rightarrow> ''?''),
       encode = (\<lambda>v. case v of PyStr t \<Rightarrow> Inr (int (length t))
                              | _ \<Rightarrow> Inl (TypeError ''encode'')),
       cosine = (\<lambda>a b. - \<bar>real_of_int (a - b)\<bar>),
       uuid4 = (\<lambda>n. replicate (Suc n) CHR ''u'') \<rparr>"

text \<open>The same world with every request answered by 404, and with a date cell that does
  not parse.\<close>

definition env_404 :: "int env" where
  "env_404 = demo_env\<lparr>requests_get := (\<lambda>u. Inr not_found_response)\<rparr>"

definition env_bad_date :: "int env" where
  "env_bad_date = demo_env\<lparr>strptime := (\<lambda>t. Inl (ValueError ''time data does not match format''))\<rparr>"

text \<open>The object after the download has recorded the date, and the same object later in
  its life: another attribute value, a collection, output, identifiers drawn.\<close>

definition dated_analyzer :: "int analyzer" where
  "dated_analyzer = demo_analyzer\<lparr>pubblication_date := Some pub_date\<rparr>"

definition busy_analyzer :: "int analyzer" where
  "busy_analyzer =
     demo_analyzer\<lparr>attrs := (attrs demo_analyzer)(''destfile'' \<mapsto> PyNone),
                    pubblication_date := Some pub_date,
                    collections := [''Press news'' \<mapsto> []],
                    effects := [Printed ''x''],
                    uuid_calls := 7\<rparr>"

text \<open>Six articles whose titles all score differently against the query.\<close>

definition six_articles :: "(pyval \<times> pyval) list" where
  "six_articles =
     [(PyStr ''a'', PyStr ''https://n/1''), (PyStr ''ab'', PyStr ''https://n/2''),
      (PyStr ''abc'', PyStr ''https://n/3''), (PyStr ''abcd'', PyStr ''https://n/4''),
      (PyStr ''abcde'', PyStr ''https://n/5''), (PyStr ''abcdef'', PyStr ''https://n/6'')]"

text \<open>A feed whose second entry has no url.\<close>

definition broken_feed_response :: response where
  "broken_feed_response =
     \<lparr>status_code = 200, http_error_msg = [], content = Inr [],
      json_body = Inr (PyDict [(''feed'',
        PyList [PyDict [(''title'', PyStr ''Alpha shorted''), (''url'', PyStr ''https://n/1'')],
                PyDict [(''title'', PyStr ''No link'')]])])\<rparr>"

definition env_broken_feed :: "int env" where
  "env_broken_feed = demo_env\<lparr>requests_get := (\<lambda>u. Inr broken_feed_response)\<rparr>"

section \<open>Properties of analyze_positions\<close>

lemma select_rows_map: "select_rows rows (map P rows) = filter P rows"
  by (induction rows) (auto simp: select_rows_def)

lemma filter_by_date_eq: "filter_by_date df d = filter (\<lambda>r. Position_Date r = Some d) df"
  by (simp add: filter_by_date_def eq_mask_def select_rows_map[symmetric] comp_def)

lemma group_keys_set: "k \<in> set (group_keys df) \<longleftrightarrow> (\<exists>r\<in>set df. ISIN r = Some k)"
  by (force simp: group_keys_def map_filter_def)

lemma group_keys_distinct: "distinct (group_keys df)"
  by (simp add: group_keys_def)

lemma filter_key_singleton:
  "distinct ks \<Longrightarrow> k \<in> set ks \<Longrightarrow> filter (\<lambda>g. agg_ISIN g = k) (map (aggregate_group df) ks) = [aggregate_group df k]"
proof (induction ks)
  case Nil then show ?case by simp
next
  case (Cons a ks)
  have key: "agg_ISIN (aggregate_group df x) = x" for x by (simp add: aggregate_group_def Let_def)
  show ?case
  proof (cases "a = k")
    case True
    with Cons.prems have "k \<notin> set ks" by simp
    then have "filter (\<lambda>g. agg_ISIN g = k) (map (aggregate_group df) ks) = []"
      by (auto simp: filter_empty_conv key)
    with True show ?thesis by (simp add: key)
  next
    case False
    with Cons show ?thesis by (simp add: key)
  qed
qed

lemma agg_first_find:
  "agg_first (map f xs) = (case find (\<lambda>r. f r \<noteq> None) xs of None \<Rightarrow> None | Some r \<Rightarrow> f r)"
  by (induction xs) (auto split: option.splits)

lemma find_conj: "find P xs = Some r \<Longrightarrow> Q r \<Longrightarrow> find (\<lambda>x. P x \<and> Q x) xs = Some r"
  by (induction xs) (auto split: if_splits)

lemma find_filter: "find P (filter Q xs) = find (\<lambda>x. Q x \<and> P x) xs"
  by (induction xs) auto


lemma analyze_positions_result:
  "pubblication_date s = Some D \<Longrightarrow>
   analyze_positions s cur hist =
     (Inr (filter (\<lambda>r. Position_Date r = Some D) cur,
           filter (\<lambda>r. Position_Date r = Some D) hist,
           groupby_ISIN_agg cur), s)"
  by (simp add: analyze_positions_def filter_by_date_eq)

text \<open>Claim C1. With the publication date \<open>D\<close> recorded in the object,
  \<^verbatim>\<open>analyze_positions\<close> returns as new positions exactly the rows of the current table
  whose Position Date is \<open>D\<close>, and as closed positions exactly the rows of the historical
  table whose Position Date is \<open>D\<close>: the same rows, in the same order, as many times as
  they occur; a row with another date or another time of day, or with no date, is left
  out.\<close>

theorem C1_new_and_closed_are_the_rows_of_the_date:
  assumes "pubblication_date s = Some D"
  shows "\<exists>new_positions closed_positions agg.
           fst (analyze_positions s cur hist) = Inr (new_positions, closed_positions, agg) \<and>
           new_positions = filter (\<lambda>r. Position_Date r = Some D) cur \<and>
           closed_positions = filter (\<lambda>r. Position_Date r = Some D) hist \<and>
           (\<forall>r. r \<in> set new_positions \<longleftrightarrow> r \<in> set cur \<and> Position_Date r = Some D) \<and>
           (\<forall>r. r \<in> set closed_positions \<longleftrightarrow> r \<in> set hist \<and> Position_Date r = Some D)"
  using assms by (simp add: analyze_positions_result)

text \<open>The scenario of the specification: three rows of the current table and one of
  the historical table carry the publication date; the historical row dated noon of the
  same day is not taken.\<close>

theorem C1_witness:
  "pubblication_date (demo_analyzer\<lparr>pubblication_date := Some pub_date\<rparr>) = Some pub_date \<and>
   (\<exists>new_positions closed_positions agg.
      fst (analyze_positions (demo_analyzer\<lparr>pubblication_date := Some pub_date\<rparr>)
             demo_current demo_historical) = Inr (new_positions, closed_positions, agg) \<and>
      length new_positions = 3 \<and> length closed_positions = 1)"
proof -
  have h: "pubblication_date (demo_analyzer\<lparr>pubblication_date := Some pub_date\<rparr>) = Some pub_date"
    by simp
  have n: "length (filter (\<lambda>r. Position_Date r = Some pub_date) demo_current) = 3"
    by (simp add: demo_current_def pub_date_def)
  have c: "length (filter (\<lambda>r. Position_Date r = Some pub_date) demo_historical) = 1"
    by (simp add: demo_historical_def pub_date_def)
  from C1_new_and_closed_are_the_rows_of_the_date [OF h, of demo_current demo_historical] n c h
  show ?thesis by auto
qed

text \<open>Claim C2. For every ISIN \<open>I\<close> that occurs in the current table, the aggregate
  returned by \<^verbatim>\<open>analyze_positions\<close> has exactly one group keyed by \<open>I\<close>; its holder
  list has one entry per row with that ISIN, holders and percentages are those of these
  rows in input order, nothing removed; its issuer is the first Share Issuer value met
  among these rows (a blank cell is not a value: \<^verbatim>\<open>'first'\<close> passes over it), so the
  issuer of the first such row whenever that cell is filled.\<close>

theorem C2_aggregate_per_ISIN:
  assumes "pubblication_date s = Some D"
    and "\<exists>r \<in> set cur. ISIN r = Some I"
  shows "\<exists>new_positions closed_positions agg g.
           fst (analyze_positions s cur hist) = Inr (new_positions, closed_positions, agg) \<and>
           filter (\<lambda>g. agg_ISIN g = I) agg = [g] \<and>
           length (agg_Position_Holder g) = length (filter (\<lambda>r. ISIN r = Some I) cur) \<and>
           agg_Position_Holder g = map Position_Holder (filter (\<lambda>r. ISIN r = Some I) cur) \<and>
           agg_Net_Short_Position g = map Net_Short_Position (filter (\<lambda>r. ISIN r = Some I) cur) \<and>
           agg_Share_Issuer g =
             (case find (\<lambda>r. ISIN r = Some I \<and> Share_Issuer r \<noteq> None) cur of
                None \<Rightarrow> None | Some r \<Rightarrow> Share_Issuer r) \<and>
           (\<forall>r n. find (\<lambda>r. ISIN r = Some I) cur = Some r \<and> Share_Issuer r = Some n
                  \<longrightarrow> agg_Share_Issuer g = Some n)"
proof -
  have mem: "I \<in> set (group_keys cur)" using assms(2) by (simp add: group_keys_set)
  have one: "filter (\<lambda>g. agg_ISIN g = I) (groupby_ISIN_agg cur) = [aggregate_group cur I]"
    unfolding groupby_ISIN_agg_def by (rule filter_key_singleton [OF group_keys_distinct mem])
  have iss: "agg_Share_Issuer (aggregate_group cur I) =
             (case find (\<lambda>r. ISIN r = Some I \<and> Share_Issuer r \<noteq> None) cur of
                None \<Rightarrow> None | Some r \<Rightarrow> Share_Issuer r)"
    by (simp add: aggregate_group_def Let_def group_rows_def agg_first_find find_filter)
  have rest: "agg_Position_Holder (aggregate_group cur I) = map Position_Holder (filter (\<lambda>r. ISIN r = Some I) cur)"
    "agg_Net_Short_Position (aggregate_group cur I) = map Net_Short_Position (filter (\<lambda>r. ISIN r = Some I) cur)"
    by (simp_all add: aggregate_group_def Let_def group_rows_def)
  have frst: "\<forall>r n. find (\<lambda>r. ISIN r = Some I) cur = Some r \<and> Share_Issuer r = Some n
                  \<longrightarrow> agg_Share_Issuer (aggregate_group cur I) = Some n"
  proof (intro allI impI)
    fix r n
    assume a: "find (\<lambda>r. ISIN r = Some I) cur = Some r \<and> Share_Issuer r = Some n"
    then have "find (\<lambda>x. ISIN x = Some I \<and> Share_Issuer x \<noteq> None) cur = Some r"
      by (intro find_conj [where Q = "\<lambda>x. Share_Issuer x \<noteq> None"]) simp_all
    with a show "agg_Share_Issuer (aggregate_group cur I) = Some n"
      by (simp only: iss option.case)
  qed
  show ?thesis
    using one iss rest frst by (simp add: analyze_positions_result [OF assms(1)])
qed

text \<open>On the example the group of IT0001 keeps Fund A twice and takes the issuer name of
  its first row.\<close>

theorem C2_witness:
  "pubblication_date (demo_analyzer\<lparr>pubblication_date := Some pub_date\<rparr>) = Some pub_date \<and>
   (\<exists>r \<in> set demo_current. ISIN r = Some ''IT0001'') \<and>
   (\<exists>new_positions closed_positions agg g.
      fst (analyze_positions (demo_analyzer\<lparr>pubblication_date := Some pub_date\<rparr>)
             demo_current demo_historical) = Inr (new_positions, closed_positions, agg) \<and>
      filter (\<lambda>g. agg_ISIN g = ''IT0001'') agg = [g] \<and>
      agg_Position_Holder g = [Some ''Fund A'', Some ''Fund A'', Some ''Fund C''] \<and>
      agg_Net_Short_Position g = [Some (6/10), Some (5/10), Some (7/10)] \<and>
      agg_Share_Issuer g = Some ''Alpha'')"
proof -
  have h1: "pubblication_date (demo_analyzer\<lparr>pubblication_date := Some pub_date\<rparr>) = Some pub_date"
    by simp
  have h2: "\<exists>r \<in> set demo_current. ISIN r = Some ''IT0001''"
    by (simp add: demo_current_def)
  from C2_aggregate_per_ISIN [OF h1 h2, of demo_historical]
  obtain new_positions closed_positions agg g where
    "fst (analyze_positions (demo_analyzer\<lparr>pubblication_date := Some pub_date\<rparr>)
             demo_current demo_historical) = Inr (new_positions, closed_positions, agg)"
    "filter (\<lambda>g. agg_ISIN g = ''IT0001'') agg = [g]"
    "agg_Position_Holder g = map Position_Holder (filter (\<lambda>r. ISIN r = Some ''IT0001'') demo_current)"
    "agg_Net_Short_Position g = map Net_Short_Position (filter (\<lambda>r. ISIN r = Some ''IT0001'') demo_current)"
    "agg_Share_Issuer g =
             (case find (\<lambda>r. ISIN r = Some ''IT0001'' \<and> Share_Issuer r \<noteq> None) demo_current of
                None \<Rightarrow> None | Some r \<Rightarrow> Share_Issuer r)"
    by blast
  then show ?thesis
    using h1 by (simp add: demo_current_def)
qed

text \<open>Claim C7. \<^verbatim>\<open>analyze_positions\<close> leaves the object as it found it, so a second run
  on the same inputs gives the same outputs; its result depends on the object only
  through the publication date (two objects that agree on it give the same result on the
  same tables, whatever else they hold); and once the date is set the result is one
  function of the current table, the historical table and the publication date.\<close>

theorem C7_analyze_positions_is_pure:
  "snd (analyze_positions s cur hist) = s \<and>
   fst (analyze_positions (snd (analyze_positions s cur hist)) cur hist)
     = fst (analyze_positions s cur hist) \<and>
   (pubblication_date s = pubblication_date s' \<longrightarrow>
      fst (analyze_positions s cur hist) = fst (analyze_positions s' cur hist)) \<and>
   (\<exists>F. \<forall>(t :: 'v analyzer) c h D.
      pubblication_date t = Some D \<longrightarrow> analyze_positions t c h = (Inr (F c h D), t))"
proof (intro conjI impI)
  show "snd (analyze_positions s cur hist) = s"
    by (simp add: analyze_positions_def split: option.splits)
  then show "fst (analyze_positions (snd (analyze_positions s cur hist)) cur hist)
     = fst (analyze_positions s cur hist)"
    by simp
  show "fst (analyze_positions s cur hist) = fst (analyze_positions s' cur hist)"
    if "pubblication_date s = pubblication_date s'"
    using that by (simp add: analyze_positions_def split: option.splits)
  show "\<exists>F. \<forall>(t :: 'v analyzer) c h D.
      pubblication_date t = Some D \<longrightarrow> analyze_positions t c h = (Inr (F c h D), t)"
    by (rule exI [of _ "\<lambda>c h D. (filter (\<lambda>r. Position_Date r = Some D) c,
                                   filter (\<lambda>r. Position_Date r = Some D) h,
                                   groupby_ISIN_agg c)"])
       (simp add: analyze_positions_result)
qed

lemma demo_group_keys: "map agg_ISIN (groupby_ISIN_agg demo_current) = [''IT0001'', ''IT0002'']"
  by code_simp

text \<open>Two objects with the publication date set that differ in everything else: both runs
  return the same three rows, one row and two groups, and the object is unchanged.\<close>

theorem C7_witness:
  "pubblication_date dated_analyzer = pubblication_date busy_analyzer \<and>
   dated_analyzer \<noteq> busy_analyzer \<and>
   (\<exists>new_positions closed_positions agg.
      fst (analyze_positions dated_analyzer demo_current demo_historical)
        = Inr (new_positions, closed_positions, agg) \<and>
      fst (analyze_positions busy_analyzer demo_current demo_historical)
        = Inr (new_positions, closed_positions, agg) \<and>
      length new_positions = 3 \<and> length closed_positions = 1 \<and>
      map agg_ISIN agg = [''IT0001'', ''IT0002'']) \<and>
   snd (analyze_positions busy_analyzer demo_current demo_historical) = busy_analyzer \<and>
   fst (analyze_positions (snd (analyze_positions busy_analyzer demo_current demo_historical))
          demo_current demo_historical)
     = fst (analyze_positions busy_analyzer demo_current demo_historical)"
proof -
  have d: "pubblication_date dated_analyzer = Some pub_date"
    by (simp add: dated_analyzer_def)
  have e: "pubblication_date dated_analyzer = pubblication_date busy_analyzer"
    by (simp add: dated_analyzer_def busy_analyzer_def)
  have ne: "dated_analyzer \<noteq> busy_analyzer"
  proof
    assume "dated_analyzer = busy_analyzer"
    then have "uuid_calls dated_analyzer = uuid_calls busy_analyzer" by simp
    then show False
      by (simp add: dated_analyzer_def busy_analyzer_def demo_analyzer_def init_def)
  qed
  have r: "fst (analyze_positions dated_analyzer demo_current demo_historical)
        = Inr (filter (\<lambda>r. Position_Date r = Some pub_date) demo_current,
               filter (\<lambda>r. Position_Date r = Some pub_date) demo_historical,
               groupby_ISIN_agg demo_current)"
    by (simp add: analyze_positions_result [OF d])
  have n: "length (filter (\<lambda>r. Position_Date r = Some pub_date) demo_current) = 3"
    by (simp add: demo_current_def pub_date_def)
  have c: "length (filter (\<lambda>r. Position_Date r = Some pub_date) demo_historical) = 1"
    by (simp add: demo_historical_def pub_date_def)
  from C7_analyze_positions_is_pure [of busy_analyzer demo_current demo_historical dated_analyzer]
       e [symmetric]
  have p: "snd (analyze_positions busy_analyzer demo_current demo_historical) = busy_analyzer"
    "fst (analyze_positions (snd (analyze_positions busy_analyzer demo_current demo_historical))
          demo_current demo_historical)
     = fst (analyze_positions busy_analyzer demo_current demo_historical)"
    "fst (analyze_positions busy_analyzer demo_current demo_historical)
       = fst (analyze_positions dated_analyzer demo_current demo_historical)"
    by - blast+
  have "\<exists>new_positions closed_positions agg.
      fst (analyze_positions dated_analyzer demo_current demo_historical)
        = Inr (new_positions, closed_positions, agg) \<and>
      fst (analyze_positions busy_analyzer demo_current demo_historical)
        = Inr (new_positions, closed_positions, agg) \<and>
      length new_positions = 3 \<and> length closed_positions = 1 \<and>
      map agg_ISIN agg = [''IT0001'', ''IT0002'']"
    unfolding p(3) r
    by (intro exI conjI) (rule refl, rule refl, rule n, rule c, rule demo_group_keys)
  with e ne p(1) p(2) show ?thesis by (intro conjI)
qed

section \<open>Properties of download_file\<close>

lemma files_written_print [simp]:
  "files_written (s\<lparr>effects := effects s @ [Printed m]\<rparr>) = files_written s"
  by (simp add: files_written_def)

lemma fetch_failure:
  assumes "getattr s ''url'' = Inr u"
    and "(requests_get env u = Inl e \<and> is_RequestException e) \<or>
         (\<exists>resp. requests_get env u = Inr resp \<and>
            (raise_for_status resp = Inl e \<or>
             (raise_for_status resp = Inr () \<and> content resp = Inl e \<and> is_RequestException e)))"
  shows "fetch env s = Inl e \<and> is_RequestException e"
  using assms by (auto simp: fetch_def raise_for_status_def split: if_splits)

lemma download_try_fetch_failure:
  "fetch env s = Inl e \<Longrightarrow> download_try env s = (Some e, \<lparr>current = None, historical = None\<rparr>, s)"
  by (simp add: download_try_def)

text \<open>Claim C3. When the request of \<^verbatim>\<open>download_file\<close> raises a network or HTTP error
  before the tables are assigned (the GET itself, the status check of
  \<^verbatim>\<open>raise_for_status\<close>, or the reading of the body), the \<^verbatim>\<open>try\<close> block is left with
  both table variables unassigned and the state untouched, the handler catches the error
  and prints its message, and control reaches the return statement: the error is not
  propagated by \<^verbatim>\<open>download_file\<close>. Evaluating the return statement on the unassigned
  names then raises \<^verbatim>\<open>UnboundLocalError\<close>.\<close>

theorem C3_request_error_is_caught_and_return_is_reached:
  assumes "getattr s ''url'' = Inr u"
    and "(requests_get env u = Inl e \<and> is_RequestException e) \<or>
         (\<exists>resp. requests_get env u = Inr resp \<and>
            (raise_for_status resp = Inl e \<or>
             (raise_for_status resp = Inr () \<and> content resp = Inl e \<and> is_RequestException e)))"
  shows "download_try env s = (Some e, \<lparr>current = None, historical = None\<rparr>, s) \<and>
         download_except (download_try env s) =
           (None, \<lparr>current = None, historical = None\<rparr>,
            s\<lparr>effects := effects s @ [Printed (''An error occurred: '' @ exception_str e)]\<rparr>) \<and>
         reaches_return env s \<and>
         fst (download_file env s) \<noteq> Inl e \<and>
         fst (download_file env s) = Inl (UnboundLocalError ''current'') \<and>
         snd (download_file env s) =
           s\<lparr>effects := effects s @ [Printed (''An error occurred: '' @ exception_str e)]\<rparr>"
proof -
  from fetch_failure [OF assms] have f: "fetch env s = Inl e" and r: "is_RequestException e"
    by simp_all
  have t: "download_try env s = (Some e, \<lparr>current = None, historical = None\<rparr>, s)"
    by (rule download_try_fetch_failure [OF f])
  have x: "download_except (download_try env s) =
           (None, \<lparr>current = None, historical = None\<rparr>,
            s\<lparr>effects := effects s @ [Printed (''An error occurred: '' @ exception_str e)]\<rparr>)"
    by (simp add: t download_except_def r)
  have ne: "Inl (UnboundLocalError ''current'') \<noteq> (Inl e :: error + (table \<times> table))"
    using r by (cases e) simp_all
  show ?thesis
    unfolding reaches_return_def download_file_def x
    using ne t by (simp add: download_return_def)
qed

text \<open>The spreadsheet endpoint answers 404.\<close>

theorem C3_witness:
  "getattr demo_analyzer ''url'' = Inr (PyStr ''https://consob.example/pnc.xlsx'') \<and>
   requests_get env_404 (PyStr ''https://consob.example/pnc.xlsx'') = Inr not_found_response \<and>
   raise_for_status not_found_response = Inl (HTTPError ''404 Client Error: Not Found'') \<and>
   reaches_return env_404 demo_analyzer \<and>
   fst (download_file env_404 demo_analyzer) = Inl (UnboundLocalError ''current'') \<and>
   effects (snd (download_file env_404 demo_analyzer))
     = [Printed ''An error occurred: 404 Client Error: Not Found'']"
proof -
  have h1: "getattr demo_analyzer ''url'' = Inr (PyStr ''https://consob.example/pnc.xlsx'')"
    by (simp add: getattr_def demo_analyzer_def init_def demo_config_def dict_get_def)
  have h2: "requests_get env_404 (PyStr ''https://consob.example/pnc.xlsx'') = Inr not_found_response"
    by (simp add: env_404_def)
  have h3: "raise_for_status not_found_response = Inl (HTTPError ''404 Client Error: Not Found'')"
    by (simp add: raise_for_status_def not_found_response_def)
  have e0: "effects demo_analyzer = []"
    by (simp add: demo_analyzer_def init_def)
  from C3_request_error_is_caught_and_return_is_reached
         [of demo_analyzer "PyStr ''https://consob.example/pnc.xlsx''" env_404
             "HTTPError ''404 Client Error: Not Found''"]
       h1 h2 h3 e0
  show ?thesis by (simp add: exception_str_def)
qed

lemma download_try_parse_failure:
  assumes "fetch env s = Inr body"
    and "read_excel_positions env body '' Correnti - Current '' = Inl e \<or>
         (\<exists>cur. read_excel_positions env body '' Correnti - Current '' = Inr cur \<and>
            (read_excel_positions env body '' Storiche - Historic '' = Inl e \<or>
             (\<exists>hist. read_excel_positions env body '' Storiche - Historic '' = Inr hist \<and>
                parse_date env body = Inl e)))"
  shows "\<exists>l. download_try env s = (Some e, l, s)"
  using assms by (auto simp: download_try_def)

lemma save_file_files:
  "files_written (snd (save_file env s body)) \<noteq> files_written s \<Longrightarrow> fst (save_file env s body) = None"
  by (auto simp: save_file_def split: sum.splits option.splits)

lemma download_except_files:
  "files_written (snd (snd (download_except r))) = files_written (snd (snd r))"
  by (auto simp: download_except_def split: prod.splits option.splits)

lemma download_file_files:
  "files_written (snd (download_file env s)) = files_written (snd (snd (download_try env s)))"
proof -
  have "snd (download_file env s) = snd (snd (download_except (download_try env s)))"
    by (auto simp: download_file_def split: prod.splits option.splits)
  then show ?thesis by (simp add: download_except_files)
qed

lemma files_written_date [simp]:
  "files_written (s\<lparr>pubblication_date := d\<rparr>) = files_written s"
  by (simp add: files_written_def)

lemma download_try_files:
  assumes "files_written (snd (snd (download_try env s))) \<noteq> files_written s"
  shows "\<exists>body cur hist d.
           fetch env s = Inr body \<and>
           read_excel_positions env body '' Correnti - Current '' = Inr cur \<and>
           read_excel_positions env body '' Storiche - Historic '' = Inr hist \<and>
           parse_date env body = Inr d"
  using assms by (auto simp: download_try_def split: sum.splits prod.splits)

text \<open>Claim C10. \<^verbatim>\<open>download_file\<close> opens the spreadsheet file for writing only after
  the two position sheets and the publication date have been parsed. When one of the
  sheet reads or the date parse raises \<open>e\<close>, no file is opened or written, and, \<open>e\<close>
  not being a request error (the parsers raise none), \<open>e\<close> leaves \<^verbatim>\<open>download_file\<close>
  with the object unchanged.\<close>

theorem C10_file_is_written_only_after_all_parsing:
  "(files_written (snd (download_file env s)) \<noteq> files_written s \<longrightarrow>
      (\<exists>body cur hist d.
           fetch env s = Inr body \<and>
           read_excel_positions env body '' Correnti - Current '' = Inr cur \<and>
           read_excel_positions env body '' Storiche - Historic '' = Inr hist \<and>
           parse_date env body = Inr d)) \<and>
   (fetch env s = Inr body \<and>
    (read_excel_positions env body '' Correnti - Current '' = Inl e \<or>
         (\<exists>cur. read_excel_positions env body '' Correnti - Current '' = Inr cur \<and>
            (read_excel_positions env body '' Storiche - Historic '' = Inl e \<or>
             (\<exists>hist. read_excel_positions env body '' Storiche - Historic '' = Inr hist \<and>
                parse_date env body = Inl e)))) \<longrightarrow>
      files_written (snd (download_file env s)) = files_written s \<and>
      (\<not> is_RequestException e \<longrightarrow> download_file env s = (Inl e, s)))"
proof (intro conjI impI)
  assume "files_written (snd (download_file env s)) \<noteq> files_written s"
  then show "\<exists>body cur hist d.
           fetch env s = Inr body \<and>
           read_excel_positions env body '' Correnti - Current '' = Inr cur \<and>
           read_excel_positions env body '' Storiche - Historic '' = Inr hist \<and>
           parse_date env body = Inr d"
    using download_try_files [of env s] by (simp add: download_file_files)
next
  assume a: "fetch env s = Inr body \<and>
    (read_excel_positions env body '' Correnti - Current '' = Inl e \<or>
         (\<exists>cur. read_excel_positions env body '' Correnti - Current '' = Inr cur \<and>
            (read_excel_positions env body '' Storiche - Historic '' = Inl e \<or>
             (\<exists>hist. read_excel_positions env body '' Storiche - Historic '' = Inr hist \<and>
                parse_date env body = Inl e))))"
  then obtain l where t: "download_try env s = (Some e, l, s)"
    using download_try_parse_failure [of env s body e] by blast
  show "files_written (snd (download_file env s)) = files_written s"
    by (simp add: download_file_files t)
  assume "\<not> is_RequestException e"
  then show "download_file env s = (Inl e, s)"
    by (simp add: download_file_def download_except_def t)
qed


lemma fetch_demo: "fetch demo_env demo_analyzer = Inr ''PK''"
  by (simp add: fetch_def getattr_def demo_analyzer_def init_def demo_config_def dict_get_def
        demo_env_def raise_for_status_def xlsx_response_def)

lemma fetch_bad_date: "fetch env_bad_date demo_analyzer = Inr ''PK''"
  by (simp add: fetch_def getattr_def demo_analyzer_def init_def demo_config_def dict_get_def
        demo_env_def env_bad_date_def raise_for_status_def xlsx_response_def)

text \<open>A date cell that does not parse: the \<^verbatim>\<open>ValueError\<close> propagates and nothing is
  written; with a date that parses the file is written.\<close>

theorem C10_witness:
  "fetch env_bad_date demo_analyzer = Inr ''PK'' \<and>
   read_excel_positions env_bad_date ''PK'' '' Correnti - Current '' = Inr demo_current \<and>
   read_excel_positions env_bad_date ''PK'' '' Storiche - Historic '' = Inr demo_historical \<and>
   parse_date env_bad_date ''PK'' = Inl (ValueError ''time data does not match format'') \<and>
   \<not> is_RequestException (ValueError ''time data does not match format'') \<and>
   download_file env_bad_date demo_analyzer
     = (Inl (ValueError ''time data does not match format''), demo_analyzer) \<and>
   files_written (snd (download_file env_bad_date demo_analyzer)) = [] \<and>
   files_written (snd (download_file demo_env demo_analyzer)) \<noteq> files_written demo_analyzer \<and>
   parse_date demo_env ''PK'' = Inr pub_date"
proof -
  have c: "read_excel_positions env_bad_date ''PK'' '' Correnti - Current '' = Inr demo_current"
    by (simp add: env_bad_date_def demo_env_def)
  have h: "read_excel_positions env_bad_date ''PK'' '' Storiche - Historic '' = Inr demo_historical"
    by (simp add: env_bad_date_def demo_env_def)
  have d: "parse_date env_bad_date ''PK'' = Inl (ValueError ''time data does not match format'')"
    by (simp add: parse_date_def env_bad_date_def demo_env_def iloc_def call_strptime_def)
  have f0: "files_written demo_analyzer = []"
    by (simp add: files_written_def demo_analyzer_def init_def)
  have pd: "parse_date demo_env ''PK'' = Inr pub_date"
    by (simp add: parse_date_def demo_env_def iloc_def call_strptime_def)
  have rp: "read_excel_positions demo_env ''PK'' '' Correnti - Current '' = Inr demo_current"
    "read_excel_positions demo_env ''PK'' '' Storiche - Historic '' = Inr demo_historical"
    by (simp_all add: demo_env_def)
  have sv: "files_written (snd (save_file demo_env
              (demo_analyzer\<lparr>pubblication_date := Some pub_date\<rparr>) ''PK'')) \<noteq> []"
    by (simp add: save_file_def path_join_def getattr_def files_written_def
          demo_env_def demo_analyzer_def init_def demo_config_def dict_get_def)
  have good: "files_written (snd (download_file demo_env demo_analyzer)) \<noteq> files_written demo_analyzer"
    using sv by (auto simp: f0 download_file_files download_try_def fetch_demo rp pd split: prod.splits)
  from C10_file_is_written_only_after_all_parsing
         [of env_bad_date demo_analyzer "''PK''" "ValueError ''time data does not match format''"]
       C10_file_is_written_only_after_all_parsing
         [of demo_env demo_analyzer "''PK''" "ValueError ''time data does not match format''"]
       fetch_bad_date c h d f0 good pd
  show ?thesis by simp
qed

section \<open>Properties of retrieve_news and of the empty store\<close>

lemma retrieve_news_response:
  assumes "getattr s ''news_endpoint'' = Inr endpoint"
    and "call_format env endpoint company_name = Inr u"
    and "requests_get env (PyStr u) = Inr resp"
  shows "retrieve_news env s company_name = (news_of_response resp, s)"
  using assms by (simp add: retrieve_news_def)

lemma retrieve_news_state: "snd (retrieve_news env s company_name) = s"
  by (simp add: retrieve_news_def split: sum.splits)

lemma demo_news_reach:
  "getattr demo_analyzer ''news_endpoint'' = Inr (PyStr ''https://news.example/q={}'')"
  "call_format demo_env (PyStr ''https://news.example/q={}'') ''AAPL'' = Inr ''https://news.example/q=AAPL''"
  "call_format env_404 (PyStr ''https://news.example/q={}'') ''AAPL'' = Inr ''https://news.example/q=AAPL''"
  "requests_get demo_env (PyStr ''https://news.example/q=AAPL'') = Inr feed_response"
  "requests_get env_404 (PyStr ''https://news.example/q=AAPL'') = Inr not_found_response"
  by (simp_all add: getattr_def demo_analyzer_def init_def demo_config_def dict_get_def
        call_format_def demo_env_def env_404_def)

text \<open>Claim C4. For every company name, when the news endpoint answers with a status code
  other than 200, \<^verbatim>\<open>retrieve_news\<close> returns the empty list: it raises nothing, and it
  leaves the object as it was.\<close>

theorem C4_non_200_response_gives_empty_list:
  assumes "getattr s ''news_endpoint'' = Inr endpoint"
    and "call_format env endpoint company_name = Inr u"
    and "requests_get env (PyStr u) = Inr resp"
    and "status_code resp \<noteq> 200"
  shows "retrieve_news env s company_name = (Inr [], s)"
  using assms(4) by (simp add: retrieve_news_response [OF assms(1-3)] news_of_response_def)

text \<open>The news endpoint answers 404.\<close>

theorem C4_witness:
  "getattr demo_analyzer ''news_endpoint'' = Inr (PyStr ''https://news.example/q={}'') \<and>
   call_format env_404 (PyStr ''https://news.example/q={}'') ''AAPL'' = Inr ''https://news.example/q=AAPL'' \<and>
   requests_get env_404 (PyStr ''https://news.example/q=AAPL'') = Inr not_found_response \<and>
   status_code not_found_response \<noteq> 200 \<and>
   retrieve_news env_404 demo_analyzer ''AAPL'' = (Inr [], demo_analyzer)"
proof -
  have st: "status_code not_found_response \<noteq> 200"
    by (simp add: not_found_response_def)
  from C4_non_200_response_gives_empty_list [OF demo_news_reach(1) demo_news_reach(3) demo_news_reach(5) st]
  show ?thesis using demo_news_reach st by simp
qed

lemma feed_articles_pairs:
  assumes "list_all2 (\<lambda>item p. \<exists>d. item = PyDict d \<and> map_of d ''title'' = Some (fst p) \<and>
                                 map_of d ''url'' = Some (snd p)) feed pairs"
  shows "feed_articles feed = Inr pairs"
  using assms by (induction rule: list_all2_induct) (auto simp: subscript_def)

lemma feed_pairs_exist:
  assumes "\<forall>item \<in> set feed. \<exists>d t u. item = PyDict d \<and> map_of d ''title'' = Some t \<and> map_of d ''url'' = Some u"
  shows "\<exists>pairs. list_all2 (\<lambda>item p. \<exists>d. item = PyDict d \<and> map_of d ''title'' = Some (fst p) \<and>
                                 map_of d ''url'' = Some (snd p)) feed pairs"
  using assms
proof (induction feed)
  case Nil
  then show ?case by simp
next
  case (Cons item feed)
  then obtain pairs where p: "list_all2 (\<lambda>item p. \<exists>d. item = PyDict d \<and> map_of d ''title'' = Some (fst p) \<and>
                                 map_of d ''url'' = Some (snd p)) feed pairs"
    by auto
  from Cons.prems obtain d t u where
    "item = PyDict d" "map_of d ''title'' = Some t" "map_of d ''url'' = Some u" by auto
  with p have "list_all2 (\<lambda>item p. \<exists>d. item = PyDict d \<and> map_of d ''title'' = Some (fst p) \<and>
                                 map_of d ''url'' = Some (snd p)) (item # feed) ((t, u) # pairs)"
    by simp
  then show ?case by blast
qed

lemma feed_articles_first_bad:
  assumes "list_all2 (\<lambda>item p. \<exists>d. item = PyDict d \<and> map_of d ''title'' = Some (fst p) \<and>
                                 map_of d ''url'' = Some (snd p)) good pairs"
  shows "map_of d ''title'' = None \<Longrightarrow>
           feed_articles (good @ PyDict d # rest) = Inl (KeyError ''title'')"
    and "map_of d ''title'' \<noteq> None \<Longrightarrow> map_of d ''url'' = None \<Longrightarrow>
           feed_articles (good @ PyDict d # rest) = Inl (KeyError ''url'')"
  using assms by (induction rule: list_all2_induct) (auto simp: subscript_def)

text \<open>Claim C9. On a 200 response whose JSON is a dict with a feed list (or no feed key:
  the empty list), when every entry is a dict with a title and a url,
  \<^verbatim>\<open>retrieve_news\<close> returns exactly the list of their (title, url) pairs, one per entry,
  in feed order, as many pairs as entries, with the values the entries hold. When an
  entry lacks a field, the entries before it being whole, the lookup of that field raises
  \<^verbatim>\<open>KeyError\<close> for it (the title first, then the url): the entry is not skipped and no
  list is returned.\<close>

theorem C9_one_pair_per_feed_entry:
  assumes "getattr s ''news_endpoint'' = Inr endpoint"
    and "call_format env endpoint company_name = Inr u"
    and "requests_get env (PyStr u) = Inr resp"
    and "status_code resp = 200"
    and "json_body resp = Inr (PyDict kvs)"
    and "(case map_of kvs ''feed'' of None \<Rightarrow> PyList [] | Some v \<Rightarrow> v) = PyList feed"
  shows "(\<forall>pairs.
            list_all2 (\<lambda>item p. \<exists>d. item = PyDict d \<and> map_of d ''title'' = Some (fst p) \<and>
                                map_of d ''url'' = Some (snd p)) feed pairs
            \<longrightarrow> retrieve_news env s company_name = (Inr pairs, s) \<and> length pairs = length feed) \<and>
         ((\<forall>item \<in> set feed. \<exists>d t u. item = PyDict d \<and> map_of d ''title'' = Some t \<and> map_of d ''url'' = Some u)
            \<longrightarrow> (\<exists>pairs. retrieve_news env s company_name = (Inr pairs, s) \<and>
                   length pairs = length feed \<and>
                   list_all2 (\<lambda>item p. \<exists>d. item = PyDict d \<and> map_of d ''title'' = Some (fst p) \<and>
                                map_of d ''url'' = Some (snd p)) feed pairs)) \<and>
         (\<forall>good pairs d rest.
            feed = good @ PyDict d # rest \<and>
            list_all2 (\<lambda>item p. \<exists>d. item = PyDict d \<and> map_of d ''title'' = Some (fst p) \<and>
                                map_of d ''url'' = Some (snd p)) good pairs
            \<longrightarrow> (map_of d ''title'' = None
                   \<longrightarrow> retrieve_news env s company_name = (Inl (KeyError ''title''), s)) \<and>
                (map_of d ''title'' \<noteq> None \<and> map_of d ''url'' = None
                   \<longrightarrow> retrieve_news env s company_name = (Inl (KeyError ''url''), s)))"
proof -
  have r: "retrieve_news env s company_name = (feed_articles feed, s)"
    using assms(4-6)
    by (simp add: retrieve_news_response [OF assms(1-3)] news_of_response_def get_feed_def py_iter_def)
  have a: "retrieve_news env s company_name = (Inr pairs, s) \<and> length pairs = length feed"
    if "list_all2 (\<lambda>item p. \<exists>d. item = PyDict d \<and> map_of d ''title'' = Some (fst p) \<and>
                                map_of d ''url'' = Some (snd p)) feed pairs" for pairs
    using feed_articles_pairs [OF that] list_all2_lengthD [OF that] by (simp add: r)
  have b: "\<exists>pairs. retrieve_news env s company_name = (Inr pairs, s) \<and>
                   length pairs = length feed \<and>
                   list_all2 (\<lambda>item p. \<exists>d. item = PyDict d \<and> map_of d ''title'' = Some (fst p) \<and>
                                map_of d ''url'' = Some (snd p)) feed pairs"
    if "\<forall>item \<in> set feed. \<exists>d t u. item = PyDict d \<and> map_of d ''title'' = Some t \<and> map_of d ''url'' = Some u"
  proof -
    from feed_pairs_exist [OF that] obtain pairs where
      p: "list_all2 (\<lambda>item p. \<exists>d. item = PyDict d \<and> map_of d ''title'' = Some (fst p) \<and>
                                map_of d ''url'' = Some (snd p)) feed pairs" by blast
    with a [OF p] show ?thesis by blast
  qed
  have c: "(map_of d ''title'' = None
                   \<longrightarrow> retrieve_news env s company_name = (Inl (KeyError ''title''), s)) \<and>
                (map_of d ''title'' \<noteq> None \<and> map_of d ''url'' = None
                   \<longrightarrow> retrieve_news env s company_name = (Inl (KeyError ''url''), s))"
    if "feed = good @ PyDict d # rest \<and>
            list_all2 (\<lambda>item p. \<exists>d. item = PyDict d \<and> map_of d ''title'' = Some (fst p) \<and>
                                map_of d ''url'' = Some (snd p)) good pairs" for good pairs d rest
  proof -
    from that have f: "feed = good @ PyDict d # rest"
      and g: "list_all2 (\<lambda>item p. \<exists>d. item = PyDict d \<and> map_of d ''title'' = Some (fst p) \<and>
                                map_of d ''url'' = Some (snd p)) good pairs" by simp_all
    show ?thesis
      using feed_articles_first_bad [OF g, of d rest] by (simp add: r f)
  qed
  from a b c show ?thesis by blast
qed

text \<open>The feed of two entries gives their two pairs; the feed whose second entry has no
  url raises \<^verbatim>\<open>KeyError\<close> for the url.\<close>

theorem C9_witness:
  "retrieve_news demo_env demo_analyzer ''AAPL''
     = (Inr [(PyStr ''Alpha shorted'', PyStr ''https://n/1''),
             (PyStr ''Alpha shorted'', PyStr ''https://n/2'')], demo_analyzer) \<and>
   retrieve_news env_broken_feed demo_analyzer ''AAPL'' = (Inl (KeyError ''url''), demo_analyzer)"
proof -
  have st: "status_code feed_response = 200"
    "json_body feed_response = Inr (PyDict [(''feed'', PyList demo_feed)])"
    "(case map_of [(''feed'', PyList demo_feed)] ''feed'' of None \<Rightarrow> PyList [] | Some v \<Rightarrow> v) = PyList demo_feed"
    by (simp_all add: feed_response_def)
  have wf: "list_all2 (\<lambda>item p. \<exists>d. item = PyDict d \<and> map_of d ''title'' = Some (fst p) \<and>
                                map_of d ''url'' = Some (snd p)) demo_feed
              [(PyStr ''Alpha shorted'', PyStr ''https://n/1''),
               (PyStr ''Alpha shorted'', PyStr ''https://n/2'')]"
    by (simp add: demo_feed_def)
  from C9_one_pair_per_feed_entry [OF demo_news_reach(1) demo_news_reach(2) demo_news_reach(4) st] wf
  have good: "retrieve_news demo_env demo_analyzer ''AAPL''
     = (Inr [(PyStr ''Alpha shorted'', PyStr ''https://n/1''),
             (PyStr ''Alpha shorted'', PyStr ''https://n/2'')], demo_analyzer)"
    by blast
  have b: "call_format env_broken_feed (PyStr ''https://news.example/q={}'') ''AAPL'' = Inr ''https://news.example/q=AAPL''"
    "requests_get env_broken_feed (PyStr ''https://news.example/q=AAPL'') = Inr broken_feed_response"
    "status_code broken_feed_response = 200"
    "json_body broken_feed_response = Inr (PyDict [(''feed'',
        PyList [PyDict [(''title'', PyStr ''Alpha shorted''), (''url'', PyStr ''https://n/1'')],
                PyDict [(''title'', PyStr ''No link'')]])])"
    "(case map_of [(''feed'',
        PyList [PyDict [(''title'', PyStr ''Alpha shorted''), (''url'', PyStr ''https://n/1'')],
                PyDict [(''title'', PyStr ''No link'')]])] ''feed'' of None \<Rightarrow> PyList [] | Some v \<Rightarrow> v)
      = PyList ([PyDict [(''title'', PyStr ''Alpha shorted''), (''url'', PyStr ''https://n/1'')]] @
                PyDict [(''title'', PyStr ''No link'')] # [])"
    by (simp_all add: env_broken_feed_def demo_env_def call_format_def broken_feed_response_def)
  have g: "list_all2 (\<lambda>item p. \<exists>d. item = PyDict d \<and> map_of d ''title'' = Some (fst p) \<and>
                                map_of d ''url'' = Some (snd p))
             [PyDict [(''title'', PyStr ''Alpha shorted''), (''url'', PyStr ''https://n/1'')]]
             [(PyStr ''Alpha shorted'', PyStr ''https://n/1'')]"
    by simp
  have m: "map_of [(''title'', PyStr ''No link'')] ''title'' \<noteq> None \<and>
           map_of [(''title'', PyStr ''No link'')] ''url'' = None"
    by simp
  from C9_one_pair_per_feed_entry [OF demo_news_reach(1) b] g m
  have bad: "retrieve_news env_broken_feed demo_analyzer ''AAPL'' = (Inl (KeyError ''url''), demo_analyzer)"
    by blast
  from good bad show ?thesis by (rule conjI)
qed

lemma ensure_collection_result:
  assumes "getattr s ''COLLECTION_NAME'' = Inr (PyStr name)"
  shows "ensure_collection s =
           (Inr (), if collection_exists s name then s
                    else s\<lparr>collections := (collections s)(name \<mapsto> [])\<rparr>)"
  using assms by (simp add: ensure_collection_def attr_str_def create_collection_def)

text \<open>Claim C6 does not hold as stated. With the news endpoint answering 404 on a fresh
  object, \<^verbatim>\<open>retrieve_news\<close> returns the empty list and the collection does not exist;
  after \<^verbatim>\<open>embed_and_store_news([])\<close> it does: lines 105 to 110 create it before the
  loop over the articles starts.\<close>

theorem C6_counterexample:
  "fst (retrieve_news env_404 demo_analyzer ''AAPL'') = Inr [] \<and>
   \<not> collection_exists demo_analyzer ''Press news'' \<and>
   collection_exists (snd (embed_and_store_news env_404 demo_analyzer [])) ''Press news''"
proof -
  have n: "getattr demo_analyzer ''COLLECTION_NAME'' = Inr (PyStr ''Press news'')"
    by (simp add: getattr_def demo_analyzer_def init_def)
  have a: "\<not> collection_exists demo_analyzer ''Press news''"
    by (simp add: collection_exists_def demo_analyzer_def init_def)
  have r: "fst (retrieve_news env_404 demo_analyzer ''AAPL'') = Inr []"
    by (simp add: retrieve_news_response [OF demo_news_reach(1) demo_news_reach(3) demo_news_reach(5)]
          news_of_response_def not_found_response_def)
  show ?thesis
    using a r by (simp add: embed_and_store_news_def ensure_collection_result [OF n] collection_exists_def)
qed

text \<open>Claim C6, amended. When the news endpoint returns HTTP 404, \<^verbatim>\<open>retrieve_news\<close>
  returns the empty list, and \<^verbatim>\<open>embed_and_store_news([])\<close> upserts no point: it
  creates the vector collection, empty, when it does not exist yet, and leaves an
  existing collection, and every other collection, as it was.\<close>

theorem C6_empty_list_upserts_nothing_but_creates_collection:
  assumes "getattr s ''news_endpoint'' = Inr endpoint"
    and "call_format env endpoint company_name = Inr u"
    and "requests_get env (PyStr u) = Inr resp"
    and "status_code resp = 404"
    and "getattr s ''COLLECTION_NAME'' = Inr (PyStr name)"
  shows "retrieve_news env s company_name = (Inr [], s) \<and>
         embed_and_store_news env s [] =
           (Inr (), if collection_exists s name then s
                    else s\<lparr>collections := (collections s)(name \<mapsto> [])\<rparr>) \<and>
         collection_exists (snd (embed_and_store_news env s [])) name \<and>
         collections (snd (embed_and_store_news env s [])) name =
           Some (case collections s name of None \<Rightarrow> [] | Some pts \<Rightarrow> pts) \<and>
         (\<forall>other. other \<noteq> name \<longrightarrow>
            collections (snd (embed_and_store_news env s [])) other = collections s other)"
proof -
  have r: "retrieve_news env s company_name = (Inr [], s)"
    using assms(4) by (simp add: retrieve_news_response [OF assms(1-3)] news_of_response_def)
  have e: "embed_and_store_news env s [] =
           (Inr (), if collection_exists s name then s
                    else s\<lparr>collections := (collections s)(name \<mapsto> [])\<rparr>)"
    by (simp add: embed_and_store_news_def ensure_collection_result [OF assms(5)])
  show ?thesis
    unfolding e using r by (auto simp: collection_exists_def)
qed

text \<open>On a fresh object the collection exists, with no point, after the call.\<close>

theorem C6_witness:
  "getattr demo_analyzer ''news_endpoint'' = Inr (PyStr ''https://news.example/q={}'') \<and>
   call_format env_404 (PyStr ''https://news.example/q={}'') ''AAPL'' = Inr ''https://news.example/q=AAPL'' \<and>
   requests_get env_404 (PyStr ''https://news.example/q=AAPL'') = Inr not_found_response \<and>
   status_code not_found_response = 404 \<and>
   getattr demo_analyzer ''COLLECTION_NAME'' = Inr (PyStr ''Press news'') \<and>
   retrieve_news env_404 demo_analyzer ''AAPL'' = (Inr [], demo_analyzer) \<and>
   collections (snd (embed_and_store_news env_404 demo_analyzer [])) ''Press news'' = Some [] \<and>
   collections (snd (embed_and_store_news env_404 demo_analyzer [])) ''Other'' = None"
proof -
  have n: "getattr demo_analyzer ''COLLECTION_NAME'' = Inr (PyStr ''Press news'')"
    by (simp add: getattr_def demo_analyzer_def init_def)
  have st: "status_code not_found_response = 404"
    by (simp add: not_found_response_def)
  have c: "collections demo_analyzer = Map.empty"
    by (simp add: demo_analyzer_def init_def)
  from C6_empty_list_upserts_nothing_but_creates_collection
         [OF demo_news_reach(1) demo_news_reach(3) demo_news_reach(5) st n]
  show ?thesis using demo_news_reach n st by (simp add: c collection_exists_def)
qed

section \<open>Properties of the vector store and of retrieve_news_with_rag\<close>

lemma upsert_point_set: "set (upsert_point p pts) \<subseteq> insert p (set pts)"
  by (induction pts) auto

lemma getattr_cong: "attrs s' = attrs s \<Longrightarrow> getattr s' n = getattr s n"
  by (simp add: getattr_def)

lemma attr_str_cong: "attrs s' = attrs s \<Longrightarrow> attr_str s' n = attr_str s n"
  by (simp add: attr_str_def getattr_def)

lemma store_article_frame:
  "attrs (snd (store_article env s a)) = attrs s \<and> effects (snd (store_article env s a)) = effects s"
  by (auto simp: store_article_def upsert_def attr_str_def getattr_def Let_def
           split: sum.splits option.splits pyval.splits)

lemma store_articles_frame:
  "attrs (snd (store_articles env s as)) = attrs s \<and> effects (snd (store_articles env s as)) = effects s"
proof (induction as arbitrary: s)
  case Nil
  then show ?case by simp
next
  case (Cons a as)
  show ?case
  proof (cases "store_article env s a")
    case (Pair r s')
    with store_article_frame [of env s a] have f: "attrs s' = attrs s" "effects s' = effects s"
      by simp_all
    show ?thesis
    proof (cases r)
      case (Inl e)
      with Pair f show ?thesis by simp
    next
      case (Inr u)
      with Pair f Cons.IH [of s'] show ?thesis by simp
    qed
  qed
qed

lemma ensure_collection_frame:
  "attrs (snd (ensure_collection s)) = attrs s \<and> effects (snd (ensure_collection s)) = effects s"
  by (auto simp: ensure_collection_def create_collection_def split: sum.splits)

lemma embed_and_store_news_frame:
  "attrs (snd (embed_and_store_news env s as)) = attrs s \<and>
   effects (snd (embed_and_store_news env s as)) = effects s"
proof (cases "ensure_collection s")
  case (Pair r s')
  with ensure_collection_frame [of s] have f: "attrs s' = attrs s" "effects s' = effects s"
    by simp_all
  show ?thesis
  proof (cases r)
    case (Inl e)
    with Pair f show ?thesis by (simp add: embed_and_store_news_def)
  next
    case (Inr u)
    with Pair f store_articles_frame [of env s' as] show ?thesis
      by (simp add: embed_and_store_news_def)
  qed
qed

lemma store_article_inv:
  assumes "getattr s ''COLLECTION_NAME'' = Inr (PyStr name)"
    and "collections s name = Some pts"
    and "\<forall>p \<in> set pts. \<exists>a \<in> A. point_payload p = [(''title'', fst a), (''url'', snd a)]"
    and "a \<in> A"
  shows "\<exists>pts'. collections (snd (store_article env s a)) name = Some pts' \<and>
           (\<forall>p \<in> set pts'. \<exists>a \<in> A. point_payload p = [(''title'', fst a), (''url'', snd a)])"
proof (cases "encode env (fst a)")
  case (Inl e)
  with assms show ?thesis by (simp add: store_article_def)
next
  case (Inr v)
  let ?p = "\<lparr>point_id = uuid4 env (uuid_calls s), point_vector = v,
             point_payload = [(''title'', fst a), (''url'', snd a)]\<rparr>"
  have c: "collections (snd (store_article env s a)) name = Some (upsert_point ?p pts)"
    using assms(1,2) Inr
    by (simp add: store_article_def Let_def attr_str_def getattr_def upsert_def)
  have "\<forall>p \<in> set (upsert_point ?p pts). \<exists>a \<in> A. point_payload p = [(''title'', fst a), (''url'', snd a)]"
  proof
    fix p assume "p \<in> set (upsert_point ?p pts)"
    with upsert_point_set [of ?p pts] have "p = ?p \<or> p \<in> set pts" by auto
    then show "\<exists>a \<in> A. point_payload p = [(''title'', fst a), (''url'', snd a)]"
      using assms(3,4) by auto
  qed
  with c show ?thesis by simp
qed

lemma store_articles_inv:
  assumes "getattr s ''COLLECTION_NAME'' = Inr (PyStr name)"
    and "collections s name = Some pts"
    and "\<forall>p \<in> set pts. \<exists>a \<in> A. point_payload p = [(''title'', fst a), (''url'', snd a)]"
    and "set as \<subseteq> A"
  shows "\<exists>pts'. collections (snd (store_articles env s as)) name = Some pts' \<and>
           (\<forall>p \<in> set pts'. \<exists>a \<in> A. point_payload p = [(''title'', fst a), (''url'', snd a)])"
  using assms
proof (induction as arbitrary: s pts)
  case Nil
  then show ?case by simp
next
  case (Cons a as)
  from Cons.prems have "a \<in> A" by simp
  from store_article_inv [OF Cons.prems(1) Cons.prems(2) Cons.prems(3) this, of env]
  obtain pts1 where p1: "collections (snd (store_article env s a)) name = Some pts1"
    "\<forall>p \<in> set pts1. \<exists>a \<in> A. point_payload p = [(''title'', fst a), (''url'', snd a)]"
    by blast
  have n1: "getattr (snd (store_article env s a)) ''COLLECTION_NAME'' = Inr (PyStr name)"
    using Cons.prems(1) store_article_frame [of env s a] by (simp add: getattr_def)
  show ?case
  proof (cases "store_article env s a")
    case (Pair r s')
    show ?thesis
    proof (cases r)
      case (Inl e)
      with Pair p1 show ?thesis by auto
    next
      case (Inr u)
      from Cons.prems(4) have "set as \<subseteq> A" by simp
      from Cons.IH [of s' pts1] n1 p1 this Pair Inr show ?thesis by simp
    qed
  qed
qed

lemma embed_and_store_news_inv:
  assumes "getattr s ''COLLECTION_NAME'' = Inr (PyStr name)"
    and "\<forall>pts. collections s name = Some pts \<longrightarrow>
           (\<forall>p \<in> set pts. \<exists>a \<in> A. point_payload p = [(''title'', fst a), (''url'', snd a)])"
    and "set as \<subseteq> A"
  shows "\<exists>pts'. collections (snd (embed_and_store_news env s as)) name = Some pts' \<and>
           (\<forall>p \<in> set pts'. \<exists>a \<in> A. point_payload p = [(''title'', fst a), (''url'', snd a)])"
proof -
  let ?s1 = "if collection_exists s name then s else s\<lparr>collections := (collections s)(name \<mapsto> [])\<rparr>"
  have e: "ensure_collection s = (Inr (), ?s1)"
    using assms(1) by (simp add: ensure_collection_def attr_str_def create_collection_def)
  have n1: "getattr ?s1 ''COLLECTION_NAME'' = Inr (PyStr name)"
    using assms(1) by (simp add: getattr_def)
  obtain pts1 where p1: "collections ?s1 name = Some pts1"
    "\<forall>p \<in> set pts1. \<exists>a \<in> A. point_payload p = [(''title'', fst a), (''url'', snd a)]"
    using assms(2) by (cases "collections s name") (auto simp: collection_exists_def)
  from store_articles_inv [OF n1 p1 assms(3), of env] show ?thesis
    by (simp add: embed_and_store_news_def e)
qed

lemma search_news_value:
  assumes "getattr s ''COLLECTION_NAME'' = Inr (PyStr name)"
    and "collections s name = Some pts"
    and "encode env (PyStr query) = Inr qv"
  shows "search_news env s query =
           Inr (take 5 (rev (sort_key (\<lambda>p. cosine env qv (point_vector p)) pts)))"
  using assms by (simp add: search_news_def attr_str_def search_def)

lemma ranked_desc:
  "sorted_wrt (\<lambda>a b. f b \<le> f a) (rev (sort_key f xs))"
proof -
  have "sorted (map f (sort_key f xs))" by simp
  then have "sorted_wrt (\<lambda>a b. f a \<le> f b) (sort_key f xs)"
    by (simp add: sorted_wrt_map)
  then show ?thesis by (simp add: sorted_wrt_rev)
qed

lemma take_ranked:
  fixes f :: "'a \<Rightarrow> real" and xs :: "'a list"
  defines "ys \<equiv> rev (sort_key f xs)"
  shows "length (take n ys) = min n (length xs)"
    and "set (take n ys) \<subseteq> set xs"
    and "sorted_wrt (\<lambda>a b. f b \<le> f a) (take n ys)"
    and "\<forall>p \<in> set xs. p \<notin> set (take n ys) \<longrightarrow> (\<forall>r \<in> set (take n ys). f p \<le> f r)"
proof -
  have d: "sorted_wrt (\<lambda>a b. f b \<le> f a) ys" unfolding ys_def by (rule ranked_desc)
  show "length (take n ys) = min n (length xs)" by (simp add: ys_def min.commute)
  show "set (take n ys) \<subseteq> set xs"
    using set_take_subset [of n ys] by (simp add: ys_def)
  have "sorted_wrt (\<lambda>a b. f b \<le> f a) (take n ys @ drop n ys)" using d by simp
  then have s: "sorted_wrt (\<lambda>a b. f b \<le> f a) (take n ys)"
    and o: "\<forall>r \<in> set (take n ys). \<forall>p \<in> set (drop n ys). f p \<le> f r"
    unfolding sorted_wrt_append by blast+
  show "sorted_wrt (\<lambda>a b. f b \<le> f a) (take n ys)" by (rule s)
  show "\<forall>p \<in> set xs. p \<notin> set (take n ys) \<longrightarrow> (\<forall>r \<in> set (take n ys). f p \<le> f r)"
  proof (intro ballI impI)
    fix p r assume p: "p \<in> set xs" "p \<notin> set (take n ys)" and r: "r \<in> set (take n ys)"
    have "set xs = set (take n ys) \<union> set (drop n ys)"
      using set_append [of "take n ys" "drop n ys"] by (simp add: ys_def)
    with p have "p \<in> set (drop n ys)" by blast
    with o r show "f p \<le> f r" by blast
  qed
qed

text \<open>Claim C8. Let every point already in the collection carry the title and url of an
  article upserted before (\<open>old\<close>; none on a fresh object). After
  \<^verbatim>\<open>embed_and_store_news\<close> on any list of articles, the search of lines 134 to 140,
  with any query string the encoder accepts, returns at most 5 results, and the payload of
  every result is the title and url of one of the articles upserted so far. The results
  are stored points, five of them or all when fewer are stored, in decreasing order of
  score, and no stored point left out scores higher than a returned one.\<close>

theorem C8_search_returns_at_most_five_upserted_articles:
  assumes "getattr s ''COLLECTION_NAME'' = Inr (PyStr name)"
    and "\<forall>pts. collections s name = Some pts \<longrightarrow>
           (\<forall>p \<in> set pts. \<exists>a \<in> set old. point_payload p = [(''title'', fst a), (''url'', snd a)])"
    and "encode env (PyStr query) = Inr qv"
  shows "\<exists>results stored.
           search_news env (snd (embed_and_store_news env s articles)) query = Inr results \<and>
           collections (snd (embed_and_store_news env s articles)) name = Some stored \<and>
           length results \<le> 5 \<and>
           length results = min 5 (length stored) \<and>
           set results \<subseteq> set stored \<and>
           (\<forall>res \<in> set results. \<exists>a \<in> set (old @ articles).
              point_payload res = [(''title'', fst a), (''url'', snd a)]) \<and>
           sorted_wrt (\<lambda>a b. cosine env qv (point_vector b) \<le> cosine env qv (point_vector a)) results \<and>
           (\<forall>p \<in> set stored. p \<notin> set results \<longrightarrow>
              (\<forall>res \<in> set results. cosine env qv (point_vector p) \<le> cosine env qv (point_vector res)))"
proof -
  let ?s' = "snd (embed_and_store_news env s articles)"
  let ?f = "\<lambda>p. cosine env qv (point_vector p)"
  have old': "\<forall>pts. collections s name = Some pts \<longrightarrow>
           (\<forall>p \<in> set pts. \<exists>a \<in> set (old @ articles). point_payload p = [(''title'', fst a), (''url'', snd a)])"
    using assms(2) by fastforce
  have sub: "set articles \<subseteq> set (old @ articles)" by simp
  from embed_and_store_news_inv [OF assms(1) old' sub, of env]
  obtain stored where p: "collections ?s' name = Some stored"
    "\<forall>p \<in> set stored. \<exists>a \<in> set (old @ articles). point_payload p = [(''title'', fst a), (''url'', snd a)]"
    by blast
  have n: "getattr ?s' ''COLLECTION_NAME'' = Inr (PyStr name)"
    using assms(1) embed_and_store_news_frame [of env s articles] by (simp add: getattr_def)
  let ?r = "take 5 (rev (sort_key ?f stored))"
  have v: "search_news env ?s' query = Inr ?r"
    by (rule search_news_value [OF n p(1) assms(3)])
  have l: "length ?r = min 5 (length stored)" by (rule take_ranked(1))
  have ss: "set ?r \<subseteq> set stored" by (rule take_ranked(2))
  have so: "sorted_wrt (\<lambda>a b. ?f b \<le> ?f a) ?r" by (rule take_ranked(3))
  have dr: "\<forall>p \<in> set stored. p \<notin> set ?r \<longrightarrow> (\<forall>res \<in> set ?r. ?f p \<le> ?f res)"
    by (rule take_ranked(4))
  have le: "length ?r \<le> 5" by simp
  have pay: "\<forall>res \<in> set ?r. \<exists>a \<in> set (old @ articles).
              point_payload res = [(''title'', fst a), (''url'', snd a)]"
    using ss p(2) by blast
  show ?thesis
    by (intro exI [of _ ?r] exI [of _ stored] conjI) (rule v, rule p(1), rule le, rule l, rule ss, rule pay, rule so, rule dr)
qed

lemma demo_search:
  "search_news demo_env
        (snd (embed_and_store_news demo_env demo_analyzer
               [(PyStr ''Alpha shorted'', PyStr ''https://n/1''),
                (PyStr ''Alpha shorted'', PyStr ''https://n/2'')])) ''Short selling''
   = Inr [\<lparr>point_id = ''uu'', point_vector = 13,
            point_payload = [(''title'', PyStr ''Alpha shorted''), (''url'', PyStr ''https://n/2'')]\<rparr>,
          \<lparr>point_id = ''u'', point_vector = 13,
            point_payload = [(''title'', PyStr ''Alpha shorted''), (''url'', PyStr ''https://n/1'')]\<rparr>]"
  by code_simp

lemma demo_search_six:
  "search_news demo_env (snd (embed_and_store_news demo_env demo_analyzer six_articles))
     ''Short selling''
   = Inr [\<lparr>point_id = ''uuuuuu'', point_vector = 6,
            point_payload = [(''title'', PyStr ''abcdef''), (''url'', PyStr ''https://n/6'')]\<rparr>,
          \<lparr>point_id = ''uuuuu'', point_vector = 5,
            point_payload = [(''title'', PyStr ''abcde''), (''url'', PyStr ''https://n/5'')]\<rparr>,
          \<lparr>point_id = ''uuuu'', point_vector = 4,
            point_payload = [(''title'', PyStr ''abcd''), (''url'', PyStr ''https://n/4'')]\<rparr>,
          \<lparr>point_id = ''uuu'', point_vector = 3,
            point_payload = [(''title'', PyStr ''abc''), (''url'', PyStr ''https://n/3'')]\<rparr>,
          \<lparr>point_id = ''uu'', point_vector = 2,
            point_payload = [(''title'', PyStr ''ab''), (''url'', PyStr ''https://n/2'')]\<rparr>]"
  by code_simp

text \<open>Two articles with the same title and different urls are stored as two points with
  two identifiers, and the search returns both, the newer first. Of six articles with
  different scores the five best come back, best first.\<close>

theorem C8_witness:
  "getattr demo_analyzer ''COLLECTION_NAME'' = Inr (PyStr ''Press news'') \<and>
   collections demo_analyzer ''Press news'' = None \<and>
   encode demo_env (PyStr ''Short selling'') = Inr 13 \<and>
   (\<exists>results.
      search_news demo_env
        (snd (embed_and_store_news demo_env demo_analyzer
               [(PyStr ''Alpha shorted'', PyStr ''https://n/1''),
                (PyStr ''Alpha shorted'', PyStr ''https://n/2'')])) ''Short selling'' = Inr results \<and>
      length results \<le> 5 \<and>
      map point_id results = [''uu'', ''u''] \<and>
      map point_payload results =
        [[(''title'', PyStr ''Alpha shorted''), (''url'', PyStr ''https://n/2'')],
         [(''title'', PyStr ''Alpha shorted''), (''url'', PyStr ''https://n/1'')]]) \<and>
   (\<exists>results.
      search_news demo_env (snd (embed_and_store_news demo_env demo_analyzer six_articles))
        ''Short selling'' = Inr results \<and>
      length results = 5 \<and>
      map (\<lambda>res. map_of (point_payload res) ''url'') results =
        [Some (PyStr ''https://n/6''), Some (PyStr ''https://n/5''), Some (PyStr ''https://n/4''),
         Some (PyStr ''https://n/3''), Some (PyStr ''https://n/2'')])"
proof -
  have n: "getattr demo_analyzer ''COLLECTION_NAME'' = Inr (PyStr ''Press news'')"
    by (simp add: getattr_def demo_analyzer_def init_def)
  have c: "collections demo_analyzer ''Press news'' = None"
    by (simp add: demo_analyzer_def init_def)
  then have o: "\<forall>pts. collections demo_analyzer ''Press news'' = Some pts \<longrightarrow>
           (\<forall>p \<in> set pts. \<exists>a \<in> set []. point_payload p = [(''title'', fst a), (''url'', snd a)])"
    by simp
  have q: "encode demo_env (PyStr ''Short selling'') = Inr 13"
    by (simp add: demo_env_def)
  from C8_search_returns_at_most_five_upserted_articles [OF n o q,
         of "[(PyStr ''Alpha shorted'', PyStr ''https://n/1''),
              (PyStr ''Alpha shorted'', PyStr ''https://n/2'')]"]
  obtain results where r:
    "search_news demo_env
        (snd (embed_and_store_news demo_env demo_analyzer
               [(PyStr ''Alpha shorted'', PyStr ''https://n/1''),
                (PyStr ''Alpha shorted'', PyStr ''https://n/2'')])) ''Short selling'' = Inr results"
    "length results \<le> 5"
    by blast
  from r(1) have eq: "results =
         [\<lparr>point_id = ''uu'', point_vector = 13,
            point_payload = [(''title'', PyStr ''Alpha shorted''), (''url'', PyStr ''https://n/2'')]\<rparr>,
          \<lparr>point_id = ''u'', point_vector = 13,
            point_payload = [(''title'', PyStr ''Alpha shorted''), (''url'', PyStr ''https://n/1'')]\<rparr>]"
    unfolding demo_search by simp
  have two: "map point_id results = [''uu'', ''u'']"
    "map point_payload results =
        [[(''title'', PyStr ''Alpha shorted''), (''url'', PyStr ''https://n/2'')],
         [(''title'', PyStr ''Alpha shorted''), (''url'', PyStr ''https://n/1'')]]"
    unfolding eq by simp_all
  have first: "\<exists>results.
      search_news demo_env
        (snd (embed_and_store_news demo_env demo_analyzer
               [(PyStr ''Alpha shorted'', PyStr ''https://n/1''),
                (PyStr ''Alpha shorted'', PyStr ''https://n/2'')])) ''Short selling'' = Inr results \<and>
      length results \<le> 5 \<and>
      map point_id results = [''uu'', ''u''] \<and>
      map point_payload results =
        [[(''title'', PyStr ''Alpha shorted''), (''url'', PyStr ''https://n/2'')],
         [(''title'', PyStr ''Alpha shorted''), (''url'', PyStr ''https://n/1'')]]"
    by (intro exI [of _ results] conjI) (rule r(1), rule r(2), rule two(1), rule two(2))
  from C8_search_returns_at_most_five_upserted_articles [OF n o q, of six_articles]
  obtain results6 where r6:
    "search_news demo_env (snd (embed_and_store_news demo_env demo_analyzer six_articles))
        ''Short selling'' = Inr results6"
    "length results6 \<le> 5"
    by blast
  from r6(1) have eq6: "results6 =
         [\<lparr>point_id = ''uuuuuu'', point_vector = 6,
            point_payload = [(''title'', PyStr ''abcdef''), (''url'', PyStr ''https://n/6'')]\<rparr>,
          \<lparr>point_id = ''uuuuu'', point_vector = 5,
            point_payload = [(''title'', PyStr ''abcde''), (''url'', PyStr ''https://n/5'')]\<rparr>,
          \<lparr>point_id = ''uuuu'', point_vector = 4,
            point_payload = [(''title'', PyStr ''abcd''), (''url'', PyStr ''https://n/4'')]\<rparr>,
          \<lparr>point_id = ''uuu'', point_vector = 3,
            point_payload = [(''title'', PyStr ''abc''), (''url'', PyStr ''https://n/3'')]\<rparr>,
          \<lparr>point_id = ''uu'', point_vector = 2,
            point_payload = [(''title'', PyStr ''ab''), (''url'', PyStr ''https://n/2'')]\<rparr>]"
    unfolding demo_search_six by simp
  have six: "length results6 = 5"
    "map (\<lambda>res. map_of (point_payload res) ''url'') results6 =
        [Some (PyStr ''https://n/6''), Some (PyStr ''https://n/5''), Some (PyStr ''https://n/4''),
         Some (PyStr ''https://n/3''), Some (PyStr ''https://n/2'')]"
    unfolding eq6 by simp_all
  have second: "\<exists>results.
      search_news demo_env (snd (embed_and_store_news demo_env demo_analyzer six_articles))
        ''Short selling'' = Inr results \<and>
      length results = 5 \<and>
      map (\<lambda>res. map_of (point_payload res) ''url'') results =
        [Some (PyStr ''https://n/6''), Some (PyStr ''https://n/5''), Some (PyStr ''https://n/4''),
         Some (PyStr ''https://n/3''), Some (PyStr ''https://n/2'')]"
    by (intro exI [of _ results6] conjI) (rule r6(1), rule six(1), rule six(2))
  from n c q first second show ?thesis by (intro conjI)
qed

lemma save_file_attrs: "attrs (snd (save_file env s body)) = attrs s"
  by (auto simp: save_file_def split: sum.splits option.splits)

lemma save_file_attrs_pair: "save_file env s body = (x, s') \<Longrightarrow> attrs s' = attrs s"
  using save_file_attrs [of env s body] by simp

lemma download_try_attrs:
  "attrs (snd (snd (download_try env s))) k = attrs s k"
  by (auto simp: download_try_def split: sum.splits prod.splits
           dest!: save_file_attrs_pair)

lemma download_except_attrs: "attrs (snd (snd (download_except r))) = attrs (snd (snd r))"
  by (auto simp: download_except_def split: prod.splits option.splits)

lemma download_file_attrs:
  "attrs (snd (download_file env s)) k = attrs s k"
proof -
  have "snd (download_file env s) = snd (snd (download_except (download_try env s)))"
    by (auto simp: download_file_def split: prod.splits option.splits)
  then show ?thesis by (simp add: download_except_attrs download_try_attrs)
qed

lemma analyze_positions_state: "snd (analyze_positions s cur hist) = s"
  by (simp add: analyze_positions_def split: option.splits)

lemma rag_prompt_frame:
  "attrs (snd (rag_prompt env s c)) = attrs s \<and> effects (snd (rag_prompt env s c)) = effects s"
proof -
  obtain r1 where r1: "retrieve_news env s c = (r1, s)"
    using retrieve_news_state [of env s c] by (cases "retrieve_news env s c") simp
  show ?thesis
  proof (cases r1)
    case (Inl e)
    with r1 show ?thesis by (simp add: rag_prompt_def)
  next
    case (Inr arts)
    obtain r2 s2 where r2: "embed_and_store_news env s arts = (r2, s2)"
      by (cases "embed_and_store_news env s arts")
    with embed_and_store_news_frame [of env s arts]
    have f: "attrs s2 = attrs s" "effects s2 = effects s" by simp_all
    from r1 Inr r2 f show ?thesis
      by (auto simp: rag_prompt_def split: sum.splits)
  qed
qed

lemma rag_inference_unassigned:
  assumes "attrs s ''llm_inference_endpoint'' = None"
  shows "snd (rag_inference env s prompt) = s \<and>
         (\<exists>e. fst (rag_inference env s prompt) = Inl e) \<and>
         (attrs s ''hugging_face_token'' \<noteq> None \<longrightarrow>
            fst (rag_inference env s prompt) = Inl (AttributeError ''llm_inference_endpoint''))"
  using assms by (auto simp: rag_inference_def getattr_def split: option.splits)

lemma retrieve_news_with_rag_frame:
  assumes "attrs s ''llm_inference_endpoint'' = None"
  shows "attrs (snd (retrieve_news_with_rag env s c)) = attrs s \<and>
         effects (snd (retrieve_news_with_rag env s c)) = effects s"
proof (cases "rag_prompt env s c")
  case (Pair r s')
  with rag_prompt_frame [of env s c] have f: "attrs s' = attrs s" "effects s' = effects s"
    by simp_all
  show ?thesis
  proof (cases r)
    case (Inl e)
    with Pair f show ?thesis by (simp add: retrieve_news_with_rag_def)
  next
    case (Inr p)
    from assms f have "attrs s' ''llm_inference_endpoint'' = None" by simp
    from rag_inference_unassigned [OF this, of env p] Pair Inr f show ?thesis
      by (simp add: retrieve_news_with_rag_def)
  qed
qed

lemma reachable_attrs:
  "reachable s \<Longrightarrow>
     attrs s ''llm_inference_endpoint'' = None \<and> attrs s ''hugging_face_token'' \<noteq> None"
proof (induction rule: reachable.induct)
  case (r_init config secrets)
  then show ?case by (simp add: init_def)
next
  case (r_download s env)
  then show ?case by (simp add: download_file_attrs)
next
  case (r_analyze s cur hist)
  then show ?case by (simp add: analyze_positions_state)
next
  case (r_news s env company_name)
  then show ?case by (simp add: retrieve_news_state)
next
  case (r_embed s env articles)
  then show ?case by (simp add: embed_and_store_news_frame)
next
  case (r_rag s env company_name)
  then show ?case by (simp add: retrieve_news_with_rag_frame)
next
  case (r_display s new_rows closed_rows agg)
  then show ?case by (simp add: display_results_def)
qed

text \<open>A run of \<^verbatim>\<open>execute\<close> passes through states of these methods only.\<close>

lemma reachable_execute: "reachable s \<Longrightarrow> reachable (snd (execute env s))"
proof -
  assume r: "reachable s"
  obtain r1 s1 where d: "download_file env s = (r1, s1)"
    by (cases "download_file env s")
  from r_download [OF r, of env] d have r1: "reachable s1" by simp
  show ?thesis
  proof (cases r1)
    case (Inl e)
    with d r1 show ?thesis by (simp add: execute_def)
  next
    case (Inr tables)
    obtain r2 s2 where a: "analyze_positions s1 (fst tables) (snd tables) = (r2, s2)"
      by (cases "analyze_positions s1 (fst tables) (snd tables)")
    from r_analyze [OF r1, of "fst tables" "snd tables"] a have r2: "reachable s2" by simp
    show ?thesis
    proof (cases r2)
      case (Inl e)
      with d Inr a r2 show ?thesis by (simp add: execute_def)
    next
      case res: (Inr res)
      obtain r3 s3 where g: "retrieve_news_with_rag env s2 ''AAPL'' = (r3, s3)"
        by (cases "retrieve_news_with_rag env s2 ''AAPL''")
      from r_rag [OF r2, of env "''AAPL''"] g have r3: "reachable s3" by simp
      show ?thesis
      proof (cases r3)
        case (Inl e)
        with d Inr a res g r3 show ?thesis by (simp add: execute_def)
      next
        case ex: (Inr explanation)
        from r_display [OF r3, of "fst res" "fst (snd res)" "snd (snd res)"]
        show ?thesis using d Inr a res g ex by (simp add: execute_def)
      qed
    qed
  qed
qed

text \<open>Claim C5. No method assigns \<^verbatim>\<open>llm_inference_endpoint\<close>: in every state the object
  can reach, reading it raises \<^verbatim>\<open>AttributeError\<close>. So \<^verbatim>\<open>retrieve_news_with_rag\<close>
  never returns normally and never issues the POST, and on every input for which the
  steps before the inference call succeed it fails with that \<^verbatim>\<open>AttributeError\<close>.\<close>

theorem C5_inference_endpoint_is_never_assigned:
  assumes "reachable s"
  shows "getattr s ''llm_inference_endpoint'' = Inl (AttributeError ''llm_inference_endpoint'') \<and>
         (\<exists>e. fst (retrieve_news_with_rag env s company_name) = Inl e) \<and>
         posts (snd (retrieve_news_with_rag env s company_name)) = posts s \<and>
         (\<forall>prompt s'. rag_prompt env s company_name = (Inr prompt, s') \<longrightarrow>
            retrieve_news_with_rag env s company_name
              = (Inl (AttributeError ''llm_inference_endpoint''), s'))"
proof -
  from reachable_attrs [OF assms]
  have u: "attrs s ''llm_inference_endpoint'' = None" and t: "attrs s ''hugging_face_token'' \<noteq> None"
    by simp_all
  have g: "getattr s ''llm_inference_endpoint'' = Inl (AttributeError ''llm_inference_endpoint'')"
    using u by (simp add: getattr_def)
  have p: "posts (snd (retrieve_news_with_rag env s company_name)) = posts s"
    using retrieve_news_with_rag_frame [OF u, of env company_name] by (simp add: posts_def)
  have i: "retrieve_news_with_rag env s company_name
              = (Inl (AttributeError ''llm_inference_endpoint''), s')"
    if "rag_prompt env s company_name = (Inr prompt, s')" for prompt s'
  proof -
    from that rag_prompt_frame [of env s company_name] have "attrs s' = attrs s" by simp
    with u t have "attrs s' ''llm_inference_endpoint'' = None" "attrs s' ''hugging_face_token'' \<noteq> None"
      by simp_all
    with rag_inference_unassigned [of s' env prompt]
    have "rag_inference env s' prompt = (Inl (AttributeError ''llm_inference_endpoint''), s')"
      by (simp add: prod_eq_iff)
    then show ?thesis
      by (simp add: retrieve_news_with_rag_def that)
  qed
  have e: "\<exists>e. fst (retrieve_news_with_rag env s company_name) = Inl e"
  proof (cases "rag_prompt env s company_name")
    case (Pair r s')
    show ?thesis
    proof (cases r)
      case (Inl e)
      with Pair show ?thesis by (simp add: retrieve_news_with_rag_def)
    next
      case (Inr prompt)
      with Pair i show ?thesis by simp
    qed
  qed
  from g e p i show ?thesis by blast
qed

lemma demo_prompt_reaches_inference:
  "(case fst (rag_prompt demo_env demo_analyzer ''AAPL'') of Inr _ \<Rightarrow> True | Inl _ \<Rightarrow> False)"
  by code_simp

text \<open>On the example the prompt is built and the call fails at the attribute.\<close>

theorem C5_witness:
  "(\<exists>prompt s'. rag_prompt demo_env demo_analyzer ''AAPL'' = (Inr prompt, s')) \<and>
   fst (retrieve_news_with_rag demo_env demo_analyzer ''AAPL'')
     = Inl (AttributeError ''llm_inference_endpoint'') \<and>
   posts (snd (retrieve_news_with_rag demo_env demo_analyzer ''AAPL'')) = []"
proof -
  have r: "reachable demo_analyzer"
    unfolding demo_analyzer_def by (rule r_init)
  obtain prompt s' where p: "rag_prompt demo_env demo_analyzer ''AAPL'' = (Inr prompt, s')"
    using demo_prompt_reaches_inference
    by (cases "rag_prompt demo_env demo_analyzer ''AAPL''") (auto split: sum.splits)
  have z: "posts demo_analyzer = []"
    by (simp add: posts_def demo_analyzer_def init_def)
  from C5_inference_endpoint_is_never_assigned [OF r, of demo_env "''AAPL''"] p z
  show ?thesis by auto
qed

end
